theory Spec2Isabelle
  imports Main "HOL-Library.Word"
begin

section \<open>Data model\<close>

text \<open>
  The middleman forwards IPDL messages between the UI process and the recording
  process. The embedding follows the forwarding source file: the classifier
  \<open>HandleMessageInMiddleman\<close>, the shutdown trigger \<open>BeginShutdown\<close>, the main-thread
  runnable queue, and the class \<open>MiddlemanProtocol\<close> with its two instances.
\<close>

datatype Side = ParentSide | ChildSide

text \<open>
  \<open>ipc::IProtocol::Result\<close>: the source only names \<open>MsgProcessed\<close>; every other
  enumerator is \<open>MsgFailure n\<close>.
\<close>

datatype Result = MsgProcessed | MsgFailure nat

text \<open>
  \<open>IPC::Message\<close>: the source reads \<open>type()\<close> (\<open>msgid_t\<close>, an unsigned 32-bit
  integer) and \<open>routing_id()\<close> (a 32-bit integer, compared for equality only).
\<close>

record Message =
  msg_type :: "32 word"
  routing_id :: "32 word"
  payload :: "8 word list"

text \<open>
  Modelled from the spec: the default constructor of \<open>IPC::Message\<close> is not in the
  source; \<open>new Message()\<close> is the message with a zero header and no payload. No
  property below depends on the values chosen.
\<close>

definition Message_new :: Message where
  "Message_new = \<lparr>msg_type = 0, routing_id = 0, payload = []\<rparr>"

text \<open>
  Every way the source ends the process abruptly, by the place it happens:
  the release assertions, the two \<open>MOZ_CRASH\<close> calls, and the use of a null pointer.
\<close>

datatype fatal =
    Assert_MsgProcessed
  | Assert_Forward_ParentSide
  | Assert_Receive_ChildSide
  | Assert_NoSyncMessageReply
  | Assert_SyncSend_ChildSide
  | Assert_OppositeMessageLoop
  | Crash_NYI
  | Assert_Close_ChildSide
  | Crash_Initialize
  | NullDereference

text \<open>
  The message type constants and actor ranges come from generated IPDL headers that
  are not part of the source; they are parameters of the classifier.
\<close>

record ipdl_ids =
  PContent_Msg_ConstructBrowser :: "32 word"
  PContent_Msg_RegisterBrowsingContextGroup :: "32 word"
  PContent_Msg_RegisterChrome :: "32 word"
  PContent_Msg_SetXPCOMProcessAttributes :: "32 word"
  PContent_Msg_UpdateSharedData :: "32 word"
  PContent_Msg_SetProcessSandbox :: "32 word"
  PBrowser_Msg_InitRendering :: "32 word"
  PBrowser_Msg_SetDocShellIsActive :: "32 word"
  PBrowser_Msg_RenderLayers :: "32 word"
  PBrowser_Msg_UpdateDimensions :: "32 word"
  PBrowser_Msg_LoadURL :: "32 word"
  PBrowser_Msg_Show :: "32 word"
  PBrowser_Msg_LoadRemoteScript :: "32 word"
  PBrowser_Msg_AsyncMessage :: "32 word"
  PBrowser_Msg_Destroy :: "32 word"
  PBrowserStart :: "32 word"
  PBrowserEnd :: "32 word"
  PContent_Msg_InitRendering :: "32 word"
  PContent_Msg_Shutdown :: "32 word"
  PCompositorBridgeStart :: "32 word"
  PCompositorBridgeEnd :: "32 word"
  PWindowGlobalStart :: "32 word"
  PWindowGlobalEnd :: "32 word"

type_synonym proto_ptr = nat

text \<open>
  The collaborators the source calls but does not define: the local actor tree
  (\<open>ContentChild\<close>, \<open>CompositorBridgeChild\<close>), the origin marker of a message, and
  the IPC channel of each protocol object. A synchronous \<open>Send\<close> or \<open>Call\<close> returns
  its success flag and the contents it leaves in the reply buffer. Both singletons
  are taken to exist.
\<close>

record env =
  ids :: ipdl_ids
  ManagedPBrowserChild :: "32 word list"
  Lookup :: "32 word \<Rightarrow> bool"
  PContentChild_OnMessageReceived :: "Message \<Rightarrow> Result"
  CompositorBridgeChild_OnMessageReceived :: "Message \<Rightarrow> Result"
  MessageOriginatesFromMiddleman :: "Message \<Rightarrow> bool"
  Channel_Send :: "proto_ptr \<Rightarrow> Message \<Rightarrow> bool"
  Channel_SendSync :: "proto_ptr \<Rightarrow> Message \<Rightarrow> bool \<times> Message"
  Channel_Call :: "proto_ptr \<Rightarrow> Message \<Rightarrow> bool \<times> Message"

section \<open>The classifier\<close>

text \<open>A local delivery: which actor tree received the message.\<close>

datatype delivery = ToContentChild Message | ToCompositorBridgeChild Message

text \<open>The search loop over the managed \<open>PBrowserChild\<close> actors.\<close>

fun find_browser :: "32 word list \<Rightarrow> 32 word \<Rightarrow> bool" where
  "find_browser [] rid = False"
| "find_browser (child # browsers) rid =
     (if child = rid then True else find_browser browsers rid)"

text \<open>The first condition of the classifier: messages for both processes.\<close>

definition both_processes :: "ipdl_ids \<Rightarrow> 32 word \<Rightarrow> bool" where
  "both_processes I t =
     (t = PContent_Msg_ConstructBrowser I \<or>
      t = PContent_Msg_RegisterBrowsingContextGroup I \<or>
      t = PContent_Msg_RegisterChrome I \<or>
      t = PContent_Msg_SetXPCOMProcessAttributes I \<or>
      t = PContent_Msg_UpdateSharedData I \<or>
      t = PContent_Msg_SetProcessSandbox I \<or>
      t = PBrowser_Msg_InitRendering I \<or>
      t = PBrowser_Msg_SetDocShellIsActive I \<or>
      t = PBrowser_Msg_RenderLayers I \<or>
      t = PBrowser_Msg_UpdateDimensions I \<or>
      t = PBrowser_Msg_LoadURL I \<or>
      t = PBrowser_Msg_Show I \<or>
      t = PBrowser_Msg_LoadRemoteScript I \<or>
      t = PBrowser_Msg_AsyncMessage I \<or>
      t = PBrowser_Msg_Destroy I)"

text \<open>The second condition: messages for the middleman only.\<close>

definition middleman_only :: "ipdl_ids \<Rightarrow> 32 word \<Rightarrow> bool" where
  "middleman_only I t =
     (t = PContent_Msg_InitRendering I \<or> t = PContent_Msg_Shutdown I)"

text \<open>The release assertion after each local delivery.\<close>

definition assert_processed :: "Result \<Rightarrow> bool \<Rightarrow> fatal + bool" where
  "assert_processed r b = (if r = MsgProcessed then Inr b else Inl Assert_MsgProcessed)"

text \<open>
  \<open>HandleMessageInMiddleman\<close> returns the local deliveries it made, in order, and
  either the fatal assertion it hit or its boolean result: \<open>True\<close> when the message
  is handled in the middleman alone, \<open>False\<close> when the caller is to forward it.
\<close>

definition HandleMessageInMiddleman ::
  "env \<Rightarrow> Side \<Rightarrow> Message \<Rightarrow> delivery list \<times> (fatal + bool)" where
  "HandleMessageInMiddleman E aSide aMessage =
     (let t = msg_type aMessage; I = ids E in
      if aSide = ParentSide then ([], Inr False)
      else if both_processes I t then
        (if PBrowserStart I \<le> t \<and> t \<le> PBrowserEnd I \<and>
            \<not> find_browser (ManagedPBrowserChild E) (routing_id aMessage)
         then ([], Inr False)
         else ([ToContentChild aMessage],
               assert_processed (PContentChild_OnMessageReceived E aMessage) False))
      else if middleman_only I t then
        ([ToContentChild aMessage],
         assert_processed (PContentChild_OnMessageReceived E aMessage) True)
      else if PCompositorBridgeStart I \<le> t \<and> t \<le> PCompositorBridgeEnd I then
        ([ToCompositorBridgeChild aMessage],
         assert_processed (CompositorBridgeChild_OnMessageReceived E aMessage) True)
      else if PWindowGlobalStart I \<le> t \<and> t \<le> PWindowGlobalEnd I then
        (if Lookup E (routing_id aMessage)
         then ([ToContentChild aMessage],
               assert_processed (PContentChild_OnMessageReceived E aMessage) True)
         else ([], Inr False))
      else if MessageOriginatesFromMiddleman E aMessage then ([], Inr True)
      else ([], Inr False))"

section \<open>Process state\<close>

datatype loop_id = MainThreadLoop | ForwardingLoop

text \<open>The two runnables this file creates for the opposite thread.\<close>

datatype runnable =
    ForwardMessageAsync_run "proto_ptr option" Message
  | StaticMaybeSendSyncMessage_run proto_ptr

text \<open>What \<open>PostTask\<close> puts on a message loop.\<close>

datatype task = Shutdown_task | ProcessMainThreadRunnables_task | Runnable_task runnable

datatype process = UIProcess | RecordingProcess

text \<open>
  The fields of \<open>MiddlemanProtocol\<close>. \<open>channel_to\<close> records on whose channel the
  inherited \<open>Open\<close> was called.
\<close>

record MiddlemanProtocol =
  mSide :: Side
  mOpposite :: "proto_ptr option"
  mOppositeMessageLoop :: "loop_id option"
  mSyncMessage :: "Message option"
  mSyncMessageReply :: "Message option"
  mSyncMessageIsCall :: bool
  channel_to :: "process option"

text \<open>
  The statics of the file and what it does to its surroundings: the protocol
  objects by address, the runnable queue and its flag, the tasks posted to each
  message loop (oldest first), the number of \<open>NotifyAll\<close> calls on the monitor, the
  messages handed to channels by a successful asynchronous \<open>Send\<close>, the local
  deliveries, and the runnables whose \<open>Run\<close> was called.
\<close>

record world =
  heap :: "proto_ptr \<rightharpoonup> MiddlemanProtocol"
  next_ptr :: proto_ptr
  gChildProtocol :: "proto_ptr option"
  gParentProtocol :: "proto_ptr option"
  gMainThreadRunnables :: "runnable list"
  gPostedProcessMainThreadRunnables :: bool
  gParentProtocolOpened :: bool
  main_loop_tasks :: "task list"
  forwarding_loop_tasks :: "task list"
  notified :: nat
  sent :: "(proto_ptr \<times> Message) list"
  delivered :: "delivery list"
  ran :: "runnable list"

definition store :: "proto_ptr \<Rightarrow> MiddlemanProtocol \<Rightarrow> world \<Rightarrow> world" where
  "store this p w = w\<lparr>heap := (heap w)(this \<mapsto> p)\<rparr>"

definition PostTask :: "loop_id \<Rightarrow> task \<Rightarrow> world \<Rightarrow> world" where
  "PostTask l t w =
     (case l of
        MainThreadLoop \<Rightarrow> w\<lparr>main_loop_tasks := main_loop_tasks w @ [t]\<rparr>
      | ForwardingLoop \<Rightarrow> w\<lparr>forwarding_loop_tasks := forwarding_loop_tasks w @ [t]\<rparr>)"

definition NotifyAll :: "world \<Rightarrow> world" where
  "NotifyAll w = w\<lparr>notified := Suc (notified w)\<rparr>"

section \<open>Shutdown and the runnable queue\<close>

definition BeginShutdown :: "world \<Rightarrow> world" where
  "BeginShutdown w = PostTask MainThreadLoop Shutdown_task w"

definition DispatchToMainThread :: "runnable \<Rightarrow> world \<Rightarrow> world" where
  "DispatchToMainThread aRunnable w =
     (let w1 = w\<lparr>gMainThreadRunnables := gMainThreadRunnables w @ [aRunnable]\<rparr> in
      if \<not> gPostedProcessMainThreadRunnables w1
      then (PostTask MainThreadLoop ProcessMainThreadRunnables_task w1)
             \<lparr>gPostedProcessMainThreadRunnables := True\<rparr>
      else w1)"

section \<open>MiddlemanProtocol\<close>

definition PostOppositeRunnable :: "proto_ptr \<Rightarrow> runnable \<Rightarrow> world \<Rightarrow> fatal + world" where
  "PostOppositeRunnable this aRunnable w =
     (case heap w this of
        None \<Rightarrow> Inl NullDereference
      | Some p \<Rightarrow>
          if mSide p = ChildSide then
            (case mOppositeMessageLoop p of
               None \<Rightarrow> Inl NullDereference
             | Some l \<Rightarrow> Inr (PostTask l (Runnable_task aRunnable) w))
          else Inr (DispatchToMainThread aRunnable w))"

definition ForwardMessageAsync ::
  "env \<Rightarrow> proto_ptr option \<Rightarrow> Message \<Rightarrow> world \<Rightarrow> fatal + world" where
  "ForwardMessageAsync E aProtocol aMessage w =
     (case aProtocol of
        None \<Rightarrow> Inl NullDereference
      | Some a \<Rightarrow>
          (case heap w a of
             None \<Rightarrow> Inl NullDereference
           | Some p \<Rightarrow>
               if Channel_Send E a aMessage then Inr (w\<lparr>sent := sent w @ [(a, aMessage)]\<rparr>)
               else if mSide p = ParentSide then Inr (BeginShutdown w)
               else Inl Assert_Forward_ParentSide))"

text \<open>
  The asynchronous receive handler. The copy of the message is the message itself:
  messages are values here.
\<close>

definition OnMessageReceived ::
  "env \<Rightarrow> proto_ptr \<Rightarrow> Message \<Rightarrow> world \<Rightarrow> fatal + (Result \<times> world)" where
  "OnMessageReceived E this aMessage w =
     (case heap w this of
        None \<Rightarrow> Inl NullDereference
      | Some p \<Rightarrow>
          if mOppositeMessageLoop p = None then
            (if mSide p \<noteq> ChildSide then Inl Assert_Receive_ChildSide
             else
               (case HandleMessageInMiddleman E (mSide p) aMessage of
                  (ds, Inl f) \<Rightarrow> Inl f
                | (ds, Inr b) \<Rightarrow> Inr (MsgProcessed, w\<lparr>delivered := delivered w @ ds\<rparr>)))
          else
            (case HandleMessageInMiddleman E (mSide p) aMessage of
               (ds, Inl f) \<Rightarrow> Inl f
             | (ds, Inr b) \<Rightarrow>
                 (let w1 = w\<lparr>delivered := delivered w @ ds\<rparr> in
                  if b then Inr (MsgProcessed, w1)
                  else
                    (case PostOppositeRunnable this
                            (ForwardMessageAsync_run (mOpposite p) aMessage) w1 of
                       Inl f \<Rightarrow> Inl f
                     | Inr w2 \<Rightarrow> Inr (MsgProcessed, w2)))))"

subsection \<open>Transmitting the pending synchronous message\<close>

text \<open>
  \<open>MaybeSendSyncMessage\<close> in three parts. The first runs up to and including the
  allocation of the reply buffer; \<open>None\<close> is the early return when no message is
  pending.
\<close>

definition MaybeSendSyncMessage_prepare ::
  "proto_ptr \<Rightarrow> world \<Rightarrow> fatal + (Message \<times> world) option" where
  "MaybeSendSyncMessage_prepare this w =
     (case heap w this of
        None \<Rightarrow> Inl NullDereference
      | Some p \<Rightarrow>
          (case mSyncMessage p of
             None \<Rightarrow> Inr None
           | Some m \<Rightarrow>
               if mSyncMessageReply p \<noteq> None then Inl Assert_NoSyncMessageReply
               else Inr (Some (m, store this (p\<lparr>mSyncMessageReply := Some Message_new\<rparr>) w))))"

text \<open>
  The second part is the \<open>Call\<close> or \<open>Send\<close> on the opposite protocol's channel, which
  fills the reply buffer, and the handling of its failure.
\<close>

definition MaybeSendSyncMessage_transmit ::
  "env \<Rightarrow> proto_ptr \<Rightarrow> Message \<Rightarrow> world \<Rightarrow> fatal + world" where
  "MaybeSendSyncMessage_transmit E this m w =
     (case heap w this of
        None \<Rightarrow> Inl NullDereference
      | Some p \<Rightarrow>
          (case mOpposite p of
             None \<Rightarrow> Inl NullDereference
           | Some opp \<Rightarrow>
               (let (ok, reply) = (if mSyncMessageIsCall p then Channel_Call E opp m
                                   else Channel_SendSync E opp m);
                    w1 = store this (p\<lparr>mSyncMessageReply := Some reply\<rparr>) w
                in if ok then Inr w1
                   else if mSide p = ChildSide then Inr (BeginShutdown w1)
                   else Inl Assert_SyncSend_ChildSide)))"

text \<open>The third part clears the message slot and notifies every waiter.\<close>

definition MaybeSendSyncMessage_finish :: "proto_ptr \<Rightarrow> world \<Rightarrow> fatal + world" where
  "MaybeSendSyncMessage_finish this w =
     (case heap w this of
        None \<Rightarrow> Inl NullDereference
      | Some p \<Rightarrow> Inr (NotifyAll (store this (p\<lparr>mSyncMessage := None\<rparr>) w)))"

definition MaybeSendSyncMessage :: "env \<Rightarrow> proto_ptr \<Rightarrow> world \<Rightarrow> fatal + world" where
  "MaybeSendSyncMessage E this w =
     (case MaybeSendSyncMessage_prepare this w of
        Inl f \<Rightarrow> Inl f
      | Inr None \<Rightarrow> Inr w
      | Inr (Some (m, w1)) \<Rightarrow>
          (case MaybeSendSyncMessage_transmit E this m w1 of
             Inl f \<Rightarrow> Inl f
           | Inr w2 \<Rightarrow> MaybeSendSyncMessage_finish this w2))"

subsection \<open>Draining the runnable queue\<close>

text \<open>\<open>Run\<close> of a runnable calls the function it wraps.\<close>

definition Run :: "env \<Rightarrow> runnable \<Rightarrow> world \<Rightarrow> fatal + world" where
  "Run E r w =
     (let w1 = w\<lparr>ran := ran w @ [r]\<rparr> in
      case r of
        ForwardMessageAsync_run aProtocol aMessage \<Rightarrow> ForwardMessageAsync E aProtocol aMessage w1
      | StaticMaybeSendSyncMessage_run aProtocol \<Rightarrow> MaybeSendSyncMessage E aProtocol w1)"

text \<open>
  The loop of \<open>ProcessMainThreadRunnables\<close> reads the queue by index and re-reads its
  length on every round.
\<close>

function ProcessMainThreadRunnables_loop :: "env \<Rightarrow> nat \<Rightarrow> world \<Rightarrow> fatal + world" where
  "ProcessMainThreadRunnables_loop E i w =
     (if i < length (gMainThreadRunnables w) then
        (case Run E (gMainThreadRunnables w ! i) w of
           Inl f \<Rightarrow> Inl f
         | Inr w1 \<Rightarrow> ProcessMainThreadRunnables_loop E (Suc i) w1)
      else Inr w)"
  by pat_completeness auto
termination
proof (relation "measure (\<lambda>(E, i, w). length (gMainThreadRunnables w) - i)")
  show "wf (measure (\<lambda>(E, i, w). length (gMainThreadRunnables w) - i))"
    by simp
next
  fix E :: env and i :: nat and w w1 :: world
  assume lt: "i < length (gMainThreadRunnables w)"
    and run: "Run E (gMainThreadRunnables w ! i) w = Inr w1"
  have "gMainThreadRunnables w1 = gMainThreadRunnables w"
    using run
    by (auto simp: Run_def ForwardMessageAsync_def MaybeSendSyncMessage_def
        MaybeSendSyncMessage_prepare_def MaybeSendSyncMessage_transmit_def
        MaybeSendSyncMessage_finish_def BeginShutdown_def PostTask_def NotifyAll_def
        store_def Let_def
        split: runnable.splits option.splits if_splits sum.splits prod.splits)
  with lt show "((E, Suc i, w1), (E, i, w)) \<in> measure (\<lambda>(E, i, w). length (gMainThreadRunnables w) - i)"
    by simp
qed

declare ProcessMainThreadRunnables_loop.simps [simp del]

definition ProcessMainThreadRunnables :: "env \<Rightarrow> world \<Rightarrow> fatal + world" where
  "ProcessMainThreadRunnables E w =
     (case ProcessMainThreadRunnables_loop E 0 w of
        Inl f \<Rightarrow> Inl f
      | Inr w1 \<Rightarrow>
          Inr (w1\<lparr>gMainThreadRunnables := [], gPostedProcessMainThreadRunnables := False\<rparr>))"

definition MaybeHandleForwardedMessages :: "env \<Rightarrow> world \<Rightarrow> fatal + world" where
  "MaybeHandleForwardedMessages E w =
     (case gParentProtocol w of
        None \<Rightarrow> ProcessMainThreadRunnables E w
      | Some p \<Rightarrow>
          (case MaybeSendSyncMessage E p w of
             Inl f \<Rightarrow> Inl f
           | Inr w1 \<Rightarrow> ProcessMainThreadRunnables E w1))"

subsection \<open>Receiving a synchronous message\<close>

text \<open>
  \<open>HandleSyncMessage\<close> blocks on the monitor until the reply slot is set. While it
  waits the main thread runs; its turns are given as a schedule. A turn is either a
  call of \<open>MaybeHandleForwardedMessages\<close> or the next task of the main thread's
  message loop. The body of the \<open>Shutdown\<close> task is not in the source: a turn that
  finds it at the head of the loop leaves it there.
\<close>

datatype main_thread_turn = Turn_MaybeHandleForwardedMessages | Turn_next_task

definition main_thread_step :: "env \<Rightarrow> main_thread_turn \<Rightarrow> world \<Rightarrow> fatal + world" where
  "main_thread_step E a w =
     (case a of
        Turn_MaybeHandleForwardedMessages \<Rightarrow> MaybeHandleForwardedMessages E w
      | Turn_next_task \<Rightarrow>
          (case main_loop_tasks w of
             [] \<Rightarrow> Inr w
           | t # ts \<Rightarrow>
               (case t of
                  Shutdown_task \<Rightarrow> Inr w
                | ProcessMainThreadRunnables_task \<Rightarrow>
                    ProcessMainThreadRunnables E (w\<lparr>main_loop_tasks := ts\<rparr>)
                | Runnable_task r \<Rightarrow> Run E r (w\<lparr>main_loop_tasks := ts\<rparr>))))"

text \<open>
  How a blocking call ends: the process stops, the schedule runs out with the
  caller still waiting, or the call returns.
\<close>

datatype 'a outcome = Stopped fatal | Blocked world | Returned 'a world

text \<open>The first part of \<open>HandleSyncMessage\<close>, up to the posting of the runnable.\<close>

definition HandleSyncMessage_post ::
  "proto_ptr \<Rightarrow> Message \<Rightarrow> bool \<Rightarrow> world \<Rightarrow> fatal + world" where
  "HandleSyncMessage_post this aMessage aCall w =
     (case heap w this of
        None \<Rightarrow> Inl NullDereference
      | Some p \<Rightarrow>
          if mOppositeMessageLoop p = None then Inl Assert_OppositeMessageLoop
          else PostOppositeRunnable this (StaticMaybeSendSyncMessage_run this)
                 (store this (p\<lparr>mSyncMessage := Some aMessage, mSyncMessageIsCall := aCall\<rparr>) w))"

text \<open>The wait loop: the condition is checked before every wait.\<close>

fun wait_for_reply ::
  "env \<Rightarrow> proto_ptr \<Rightarrow> main_thread_turn list \<Rightarrow> world \<Rightarrow> unit outcome" where
  "wait_for_reply E this [] w =
     (case heap w this of
        None \<Rightarrow> Stopped NullDereference
      | Some p \<Rightarrow> if mSyncMessageReply p \<noteq> None then Returned () w else Blocked w)"
| "wait_for_reply E this (a # sched) w =
     (case heap w this of
        None \<Rightarrow> Stopped NullDereference
      | Some p \<Rightarrow>
          if mSyncMessageReply p \<noteq> None then Returned () w
          else
            (case main_thread_step E a w of
               Inl f \<Rightarrow> Stopped f
             | Inr w1 \<Rightarrow> wait_for_reply E this sched w1))"

text \<open>The last part hands the reply to the caller and empties the reply slot.\<close>

definition HandleSyncMessage_take :: "proto_ptr \<Rightarrow> world \<Rightarrow> Message outcome" where
  "HandleSyncMessage_take this w =
     (case heap w this of
        None \<Rightarrow> Stopped NullDereference
      | Some p \<Rightarrow>
          (case mSyncMessageReply p of
             None \<Rightarrow> Stopped NullDereference
           | Some r \<Rightarrow> Returned r (store this (p\<lparr>mSyncMessageReply := None\<rparr>) w)))"

definition HandleSyncMessage ::
  "env \<Rightarrow> proto_ptr \<Rightarrow> Message \<Rightarrow> bool \<Rightarrow> main_thread_turn list \<Rightarrow> world \<Rightarrow> Message outcome" where
  "HandleSyncMessage E this aMessage aCall sched w =
     (case HandleSyncMessage_post this aMessage aCall w of
        Inl f \<Rightarrow> Stopped f
      | Inr w1 \<Rightarrow>
          (case heap w1 this of
             None \<Rightarrow> Stopped NullDereference
           | Some p \<Rightarrow>
               if mSide p = ChildSide then Stopped Crash_NYI
               else
                 (case wait_for_reply E this sched (NotifyAll w1) of
                    Stopped f \<Rightarrow> Stopped f
                  | Blocked w2 \<Rightarrow> Blocked w2
                  | Returned u w2 \<Rightarrow> HandleSyncMessage_take this w2)))"

text \<open>The two synchronous handlers return the reply together with the status.\<close>

definition OnMessageReceived_sync ::
  "env \<Rightarrow> proto_ptr \<Rightarrow> Message \<Rightarrow> main_thread_turn list \<Rightarrow> world \<Rightarrow> (Result \<times> Message) outcome" where
  "OnMessageReceived_sync E this aMessage sched w =
     (case HandleSyncMessage E this aMessage False sched w of
        Stopped f \<Rightarrow> Stopped f
      | Blocked w1 \<Rightarrow> Blocked w1
      | Returned aReply w1 \<Rightarrow> Returned (MsgProcessed, aReply) w1)"

definition OnCallReceived ::
  "env \<Rightarrow> proto_ptr \<Rightarrow> Message \<Rightarrow> main_thread_turn list \<Rightarrow> world \<Rightarrow> (Result \<times> Message) outcome" where
  "OnCallReceived E this aMessage sched w =
     (case HandleSyncMessage E this aMessage True sched w of
        Stopped f \<Rightarrow> Stopped f
      | Blocked w1 \<Rightarrow> Blocked w1
      | Returned aReply w1 \<Rightarrow> Returned (MsgProcessed, aReply) w1)"

subsection \<open>Channel events\<close>

definition OnChannelClose :: "proto_ptr \<Rightarrow> world \<Rightarrow> fatal + world" where
  "OnChannelClose this w =
     (case heap w this of
        None \<Rightarrow> Inl NullDereference
      | Some p \<Rightarrow>
          if mSide p = ChildSide then Inr (BeginShutdown w) else Inl Assert_Close_ChildSide)"

definition OnChannelError :: "proto_ptr \<Rightarrow> world \<Rightarrow> fatal + world" where
  "OnChannelError this w = Inr (BeginShutdown w)"

section \<open>Initialization\<close>

text \<open>
  The kinds of process (\<open>ProcessKind\<close> is declared outside the source; the source
  names \<open>MiddlemanRecording\<close>).
\<close>

datatype ProcessKind = Recording | Replaying | MiddlemanRecording | MiddlemanReplaying

text \<open>The statics before \<open>InitializeForwarding\<close> runs.\<close>

definition initial_world :: world where
  "initial_world =
     \<lparr>heap = Map.empty, next_ptr = 0, gChildProtocol = None, gParentProtocol = None,
      gMainThreadRunnables = [], gPostedProcessMainThreadRunnables = False,
      gParentProtocolOpened = False, main_loop_tasks = [], forwarding_loop_tasks = [],
      notified = 0, sent = [], delivered = [], ran = []\<rparr>"

text \<open>The constructor of \<open>MiddlemanProtocol\<close>, at a fresh address.\<close>

definition new_MiddlemanProtocol :: "Side \<Rightarrow> world \<Rightarrow> proto_ptr \<times> world" where
  "new_MiddlemanProtocol aSide w =
     (next_ptr w,
      w\<lparr>heap := (heap w)(next_ptr w \<mapsto>
             \<lparr>mSide = aSide, mOpposite = None, mOppositeMessageLoop = None,
              mSyncMessage = None, mSyncMessageReply = None, mSyncMessageIsCall = False,
              channel_to = None\<rparr>),
        next_ptr := Suc (next_ptr w)\<rparr>)"

text \<open>
  The start of the forwarding thread, up to the point where it enters its message
  loop.
\<close>

definition ForwardingMessageLoopMain :: "world \<Rightarrow> fatal + world" where
  "ForwardingMessageLoopMain w =
     (case gChildProtocol w of
        None \<Rightarrow> Inl NullDereference
      | Some c \<Rightarrow>
          (case heap w c of
             None \<Rightarrow> Inl NullDereference
           | Some pc \<Rightarrow>
               (let w1 = store c (pc\<lparr>mOppositeMessageLoop := Some ForwardingLoop\<rparr>) w in
                case gParentProtocol w1 of
                  None \<Rightarrow> Inl NullDereference
                | Some q \<Rightarrow>
                    (case heap w1 q of
                       None \<Rightarrow> Inl NullDereference
                     | Some pq \<Rightarrow>
                         Inr ((store q (pq\<lparr>channel_to := Some RecordingProcess\<rparr>) w1)
                                \<lparr>gParentProtocolOpened := True\<rparr>)))))"

text \<open>
  \<open>InitializeForwarding\<close> waits until the forwarding thread has opened the parent
  protocol, so the thread's start runs inside it. \<open>thread_created\<close> is the result of
  \<open>PR_CreateThread\<close>.
\<close>

definition InitializeForwarding :: "ProcessKind \<Rightarrow> bool \<Rightarrow> world \<Rightarrow> fatal + world" where
  "InitializeForwarding gProcessKind thread_created w =
     (let (c, w1) = new_MiddlemanProtocol ChildSide w;
          w2 = w1\<lparr>gChildProtocol := Some c\<rparr>
      in if gProcessKind = MiddlemanRecording then
           (let (q, w3) = new_MiddlemanProtocol ParentSide w2;
                w4 = w3\<lparr>gParentProtocol := Some q\<rparr>
            in case (heap w4 q, heap w4 c) of
                 (Some pq, Some pc) \<Rightarrow>
                   (let w5 = store q (pq\<lparr>mOpposite := Some c\<rparr>) w4;
                        w6 = store c (pc\<lparr>mOpposite := Some q\<rparr>) w5
                    in case heap w6 q of
                         None \<Rightarrow> Inl NullDereference
                       | Some pq1 \<Rightarrow>
                           (let w7 = store q (pq1\<lparr>mOppositeMessageLoop := Some MainThreadLoop\<rparr>) w6
                            in if \<not> thread_created then Inl Crash_Initialize
                               else ForwardingMessageLoopMain w7))
               | _ \<Rightarrow> Inl NullDereference)
         else Inr w2)"

text \<open>\<open>ChannelToUIProcess\<close> is the channel of the child protocol.\<close>

definition ChannelToUIProcess :: "world \<Rightarrow> proto_ptr option" where
  "ChannelToUIProcess w = gChildProtocol w"

section \<open>An instance for evaluation\<close>

text \<open>
  Sample values for the parameters, in the layout IPDL uses (a protocol number in
  the upper half of the type, a message number in the lower half). The content
  protocol is 1, the browser protocol 2, the compositor bridge 3, window globals 4.
\<close>

definition sample_ids :: ipdl_ids where
  "sample_ids =
     \<lparr>PContent_Msg_ConstructBrowser = 0x10001,
      PContent_Msg_RegisterBrowsingContextGroup = 0x10002,
      PContent_Msg_RegisterChrome = 0x10003,
      PContent_Msg_SetXPCOMProcessAttributes = 0x10004,
      PContent_Msg_UpdateSharedData = 0x10005,
      PContent_Msg_SetProcessSandbox = 0x10006,
      PBrowser_Msg_InitRendering = 0x20001,
      PBrowser_Msg_SetDocShellIsActive = 0x20002,
      PBrowser_Msg_RenderLayers = 0x20003,
      PBrowser_Msg_UpdateDimensions = 0x20004,
      PBrowser_Msg_LoadURL = 0x20005,
      PBrowser_Msg_Show = 0x20006,
      PBrowser_Msg_LoadRemoteScript = 0x20007,
      PBrowser_Msg_AsyncMessage = 0x20008,
      PBrowser_Msg_Destroy = 0x20009,
      PBrowserStart = 0x20000,
      PBrowserEnd = 0x2FFFF,
      PContent_Msg_InitRendering = 0x10007,
      PContent_Msg_Shutdown = 0x10008,
      PCompositorBridgeStart = 0x30000,
      PCompositorBridgeEnd = 0x3FFFF,
      PWindowGlobalStart = 0x40000,
      PWindowGlobalEnd = 0x4FFFF\<rparr>"

text \<open>
  A middleman with one browser actor (routing id 7), local delivery that always
  succeeds, and peers that answer every synchronous message with \<open>pong\<close>.
\<close>

definition pong :: Message where
  "pong = \<lparr>msg_type = 0x10063, routing_id = 1, payload = [111, 107]\<rparr>"

definition sample_env :: env where
  "sample_env =
     \<lparr>ids = sample_ids,
      ManagedPBrowserChild = [7],
      Lookup = (\<lambda>rid. rid = 7),
      PContentChild_OnMessageReceived = (\<lambda>m. MsgProcessed),
      CompositorBridgeChild_OnMessageReceived = (\<lambda>m. MsgProcessed),
      MessageOriginatesFromMiddleman = (\<lambda>m. False),
      Channel_Send = (\<lambda>p m. True),
      Channel_SendSync = (\<lambda>p m. (True, pong)),
      Channel_Call = (\<lambda>p m. (True, pong))\<rparr>"

text \<open>The same middleman with every channel dead.\<close>

definition failing_env :: env where
  "failing_env =
     sample_env\<lparr>Channel_Send := (\<lambda>p m. False),
                Channel_SendSync := (\<lambda>p m. (False, Message_new)),
                Channel_Call := (\<lambda>p m. (False, Message_new))\<rparr>"

text \<open>
  The world after \<open>InitializeForwarding\<close> in a middleman for a recording process:
  the child protocol at address 0, the parent protocol at address 1.
\<close>

definition recording_world :: world where
  "recording_world =
     \<lparr>heap = [0 \<mapsto> \<lparr>mSide = ChildSide, mOpposite = Some 1,
                      mOppositeMessageLoop = Some ForwardingLoop,
                      mSyncMessage = None, mSyncMessageReply = None,
                      mSyncMessageIsCall = False, channel_to = None\<rparr>,
              1 \<mapsto> \<lparr>mSide = ParentSide, mOpposite = Some 0,
                      mOppositeMessageLoop = Some MainThreadLoop,
                      mSyncMessage = None, mSyncMessageReply = None,
                      mSyncMessageIsCall = False, channel_to = Some RecordingProcess\<rparr>],
      next_ptr = 2, gChildProtocol = Some 0, gParentProtocol = Some 1,
      gMainThreadRunnables = [], gPostedProcessMainThreadRunnables = False,
      gParentProtocolOpened = True, main_loop_tasks = [], forwarding_loop_tasks = [],
      notified = 0, sent = [], delivered = [], ran = []\<rparr>"

text \<open>Two messages used below.\<close>

definition ping :: Message where
  "ping = \<lparr>msg_type = 0x10062, routing_id = 1, payload = [112]\<rparr>"

definition ping2 :: Message where
  "ping2 = \<lparr>msg_type = 0x10064, routing_id = 1, payload = [113]\<rparr>"

text \<open>
  Two browser messages of a type that goes to both processes: one for the browser
  actor the middleman has, one for a routing id it has no actor for.
\<close>

definition browser_msg :: Message where
  "browser_msg = \<lparr>msg_type = 0x20008, routing_id = 7, payload = []\<rparr>"

definition stray_msg :: Message where
  "stray_msg = \<lparr>msg_type = 0x20008, routing_id = 9, payload = []\<rparr>"

text \<open>
  The world after \<open>InitializeForwarding\<close> in a middleman without a recording process:
  only the child protocol exists, and it has no opposite message loop.
\<close>

definition replaying_world :: world where
  "replaying_world =
     \<lparr>heap = [0 \<mapsto> \<lparr>mSide = ChildSide, mOpposite = None, mOppositeMessageLoop = None,
                      mSyncMessage = None, mSyncMessageReply = None,
                      mSyncMessageIsCall = False, channel_to = None\<rparr>],
      next_ptr = 1, gChildProtocol = Some 0, gParentProtocol = None,
      gMainThreadRunnables = [], gPostedProcessMainThreadRunnables = False,
      gParentProtocolOpened = False, main_loop_tasks = [], forwarding_loop_tasks = [],
      notified = 0, sent = [], delivered = [], ran = []\<rparr>"

text \<open>
  The world of \<open>recording_world\<close> once the parent protocol has received the
  synchronous message \<open>ping\<close> and posted its transmit runnable.
\<close>

definition pending_world :: world where
  "pending_world =
     \<lparr>heap = [0 \<mapsto> \<lparr>mSide = ChildSide, mOpposite = Some 1,
                      mOppositeMessageLoop = Some ForwardingLoop,
                      mSyncMessage = None, mSyncMessageReply = None,
                      mSyncMessageIsCall = False, channel_to = None\<rparr>,
              1 \<mapsto> \<lparr>mSide = ParentSide, mOpposite = Some 0,
                      mOppositeMessageLoop = Some MainThreadLoop,
                      mSyncMessage = Some ping, mSyncMessageReply = None,
                      mSyncMessageIsCall = False, channel_to = Some RecordingProcess\<rparr>],
      next_ptr = 2, gChildProtocol = Some 0, gParentProtocol = Some 1,
      gMainThreadRunnables = [StaticMaybeSendSyncMessage_run 1],
      gPostedProcessMainThreadRunnables = True,
      gParentProtocolOpened = True, main_loop_tasks = [ProcessMainThreadRunnables_task],
      forwarding_loop_tasks = [],
      notified = 0, sent = [], delivered = [], ran = []\<rparr>"

text \<open>
  The parent protocol with a message pending and the reply slot already set.
\<close>

definition clash_world :: world where
  "clash_world =
     store 1 \<lparr>mSide = ParentSide, mOpposite = Some 0,
              mOppositeMessageLoop = Some MainThreadLoop,
              mSyncMessage = Some ping, mSyncMessageReply = Some pong,
              mSyncMessageIsCall = False, channel_to = Some RecordingProcess\<rparr> recording_world"

text \<open>The child protocol with the message \<open>ping\<close> pending.\<close>

definition child_pending_world :: world where
  "child_pending_world =
     store 0 \<lparr>mSide = ChildSide, mOpposite = Some 1,
              mOppositeMessageLoop = Some ForwardingLoop,
              mSyncMessage = Some ping, mSyncMessageReply = None,
              mSyncMessageIsCall = False, channel_to = None\<rparr> recording_world"



section \<open>Observations\<close>

text \<open>The two synchronous-call slots of a protocol object, and the invariant on them.\<close>

definition at_most_one_slot :: "MiddlemanProtocol \<Rightarrow> bool" where
  "at_most_one_slot p = (mSyncMessage p = None \<or> mSyncMessageReply p = None)"

definition slots_ok :: "proto_ptr \<Rightarrow> world \<Rightarrow> bool" where
  "slots_ok q w = (case heap w q of None \<Rightarrow> True | Some p \<Rightarrow> at_most_one_slot p)"

text \<open>The contents of the two slots of the protocol object at an address.\<close>

definition slots :: "proto_ptr \<Rightarrow> world \<Rightarrow> (Message option \<times> Message option) option" where
  "slots q w = map_option (\<lambda>p. (mSyncMessage p, mSyncMessageReply p)) (heap w q)"

text \<open>
  The worlds in which a thread waiting in \<open>HandleSyncMessage\<close> checks its loop
  condition: the monitor is free only there.
\<close>

fun wait_points :: "env \<Rightarrow> proto_ptr \<Rightarrow> main_thread_turn list \<Rightarrow> world \<Rightarrow> world list" where
  "wait_points E this [] w = [w]"
| "wait_points E this (a # sched) w =
     w # (case heap w this of
            None \<Rightarrow> []
          | Some p \<Rightarrow>
              if mSyncMessageReply p \<noteq> None then []
              else
                (case main_thread_step E a w of
                   Inl f \<Rightarrow> []
                 | Inr w1 \<Rightarrow> wait_points E this sched w1))"

text \<open>The tasks of each kind waiting on the main thread's message loop.\<close>

definition shutdown_tasks :: "world \<Rightarrow> nat" where
  "shutdown_tasks w = length (filter (\<lambda>t. t = Shutdown_task) (main_loop_tasks w))"


text \<open>
  The events that trigger a shutdown: a channel close, a channel error, and an
  asynchronous forward whose \<open>Send\<close> fails.
\<close>

datatype trigger =
    Trigger_ChannelClose proto_ptr
  | Trigger_ChannelError proto_ptr
  | Trigger_SendFailure proto_ptr Message

definition fire :: "env \<Rightarrow> trigger \<Rightarrow> world \<Rightarrow> fatal + world" where
  "fire E t w =
     (case t of
        Trigger_ChannelClose this \<Rightarrow> OnChannelClose this w
      | Trigger_ChannelError this \<Rightarrow> OnChannelError this w
      | Trigger_SendFailure a m \<Rightarrow>
          ForwardMessageAsync (E\<lparr>Channel_Send := (\<lambda>q n. False)\<rparr>) (Some a) m w)"

fun fire_all :: "env \<Rightarrow> trigger list \<Rightarrow> world \<Rightarrow> fatal + world" where
  "fire_all E [] w = Inr w"
| "fire_all E (t # ts) w =
     (case fire E t w of Inl f \<Rightarrow> Inl f | Inr w1 \<Rightarrow> fire_all E ts w1)"


section \<open>Basic facts\<close>

lemma InitializeForwarding_recording:
  "InitializeForwarding MiddlemanRecording True initial_world = Inr recording_world"
  by (simp add: InitializeForwarding_def new_MiddlemanProtocol_def initial_world_def
      ForwardingMessageLoopMain_def store_def recording_world_def Let_def fun_upd_twist)

lemma find_browser_set: "find_browser bs rid \<longleftrightarrow> rid \<in> set bs"
  by (induction bs) auto

section \<open>Claims about the classifier\<close>

text \<open>
  C4: the dual-delivery list is consulted for messages that pass the origin check,
  that is, on a protocol whose side is not \<open>ParentSide\<close>. For every such message of
  the list whose type lies in the \<open>PBrowser\<close> range, the classifier delivers it to
  the content child exactly when a managed browser actor has its routing id. With
  no such actor nothing is delivered and the classifier answers "forward"; the
  receive handler then posts the forward of the copy to the opposite message loop.
\<close>

theorem C4_dual_delivery_needs_browser_actor:
  assumes "aSide \<noteq> ParentSide"
    and "both_processes (ids E) (msg_type m)"
    and "PBrowserStart (ids E) \<le> msg_type m" and "msg_type m \<le> PBrowserEnd (ids E)"
  shows "(fst (HandleMessageInMiddleman E aSide m) = [ToContentChild m]
            \<longleftrightarrow> routing_id m \<in> set (ManagedPBrowserChild E)) \<and>
         (fst (HandleMessageInMiddleman E aSide m) = []
            \<longleftrightarrow> routing_id m \<notin> set (ManagedPBrowserChild E)) \<and>
         (routing_id m \<notin> set (ManagedPBrowserChild E) \<longrightarrow>
            HandleMessageInMiddleman E aSide m = ([], Inr False) \<and>
            (\<forall>this w p l. heap w this = Some p \<and> mSide p = aSide \<and>
               mOppositeMessageLoop p = Some l \<longrightarrow>
               OnMessageReceived E this m w =
                 Inr (MsgProcessed,
                      PostTask l (Runnable_task (ForwardMessageAsync_run (mOpposite p) m)) w)))"
proof -
  from assms(1) have c: "aSide = ChildSide"
    by (cases aSide) simp_all
  from assms(2-4) show ?thesis
    unfolding c
    by (auto simp: HandleMessageInMiddleman_def find_browser_set OnMessageReceived_def
        PostOppositeRunnable_def Let_def)
qed

theorem C4_dual_delivery_witness:
  "fst (HandleMessageInMiddleman sample_env ChildSide browser_msg) = [ToContentChild browser_msg] \<and>
   HandleMessageInMiddleman sample_env ChildSide stray_msg = ([], Inr False) \<and>
   OnMessageReceived sample_env 0 stray_msg recording_world =
     Inr (MsgProcessed,
          PostTask ForwardingLoop (Runnable_task (ForwardMessageAsync_run (Some 1) stray_msg))
            recording_world)"
proof -
  have ids: "both_processes (ids sample_env) (msg_type browser_msg)"
    "PBrowserStart (ids sample_env) \<le> msg_type browser_msg"
    "msg_type browser_msg \<le> PBrowserEnd (ids sample_env)"
    "both_processes (ids sample_env) (msg_type stray_msg)"
    "PBrowserStart (ids sample_env) \<le> msg_type stray_msg"
    "msg_type stray_msg \<le> PBrowserEnd (ids sample_env)"
    by (simp_all add: both_processes_def sample_env_def sample_ids_def browser_msg_def
        stray_msg_def)
  have actors: "routing_id browser_msg \<in> set (ManagedPBrowserChild sample_env)"
    "routing_id stray_msg \<notin> set (ManagedPBrowserChild sample_env)"
    by (simp_all add: sample_env_def browser_msg_def stray_msg_def)
  let ?p = "\<lparr>mSide = ChildSide, mOpposite = Some 1, mOppositeMessageLoop = Some ForwardingLoop,
            mSyncMessage = None, mSyncMessageReply = None, mSyncMessageIsCall = False,
            channel_to = None\<rparr>"
  have child: "heap recording_world 0 = Some ?p"
    by (simp add: recording_world_def)
  have side: "ChildSide \<noteq> ParentSide"
    by simp
  from C4_dual_delivery_needs_browser_actor [OF side ids(1-3)] actors(1)
  have a: "fst (HandleMessageInMiddleman sample_env ChildSide browser_msg) =
      [ToContentChild browser_msg]"
    by blast
  from C4_dual_delivery_needs_browser_actor [OF side ids(4-6)] actors(2)
  have b: "HandleMessageInMiddleman sample_env ChildSide stray_msg = ([], Inr False)"
    and c: "\<forall>this w p l. heap w this = Some p \<and> mSide p = ChildSide \<and>
               mOppositeMessageLoop p = Some l \<longrightarrow>
               OnMessageReceived sample_env this stray_msg w =
                 Inr (MsgProcessed,
                      PostTask l (Runnable_task (ForwardMessageAsync_run (mOpposite p) stray_msg)) w)"
    by blast+
  from c have "heap recording_world 0 = Some ?p \<and> mSide ?p = ChildSide \<and>
      mOppositeMessageLoop ?p = Some ForwardingLoop \<longrightarrow>
      OnMessageReceived sample_env 0 stray_msg recording_world =
        Inr (MsgProcessed,
             PostTask ForwardingLoop
               (Runnable_task (ForwardMessageAsync_run (mOpposite ?p) stray_msg)) recording_world)"
    by blast
  with child a b show ?thesis by simp
qed

section \<open>Facts about single steps\<close>

lemmas exec_defs = HandleSyncMessage_def HandleSyncMessage_post_def HandleSyncMessage_take_def
  PostOppositeRunnable_def DispatchToMainThread_def store_def NotifyAll_def PostTask_def
  main_thread_step_def MaybeHandleForwardedMessages_def MaybeSendSyncMessage_def
  MaybeSendSyncMessage_prepare_def MaybeSendSyncMessage_transmit_def
  MaybeSendSyncMessage_finish_def ProcessMainThreadRunnables_def Run_def
  ForwardMessageAsync_def BeginShutdown_def Let_def

lemma InitializeForwarding_replaying:
  "InitializeForwarding MiddlemanReplaying True initial_world = Inr replaying_world"
  by (simp add: InitializeForwarding_def new_MiddlemanProtocol_def initial_world_def
      replaying_world_def Let_def)

lemma HandleSyncMessage_post_ping:
  "HandleSyncMessage_post 1 ping False recording_world = Inr pending_world"
  by (simp add: HandleSyncMessage_post_def PostOppositeRunnable_def DispatchToMainThread_def
      PostTask_def store_def recording_world_def pending_world_def Let_def)

lemma HandleSyncMessage_ChildSide:
  assumes "heap w this = Some p" and "mSide p = ChildSide"
  shows "HandleSyncMessage E this aMessage aCall sched w =
           (case mOppositeMessageLoop p of
              None \<Rightarrow> Stopped Assert_OppositeMessageLoop
            | Some l \<Rightarrow> Stopped Crash_NYI)"
  using assms
  by (auto simp: HandleSyncMessage_def HandleSyncMessage_post_def PostOppositeRunnable_def
      store_def PostTask_def split: option.splits loop_id.splits)

lemma HandleSyncMessage_Returned_ParentSide:
  assumes "HandleSyncMessage E this aMessage aCall sched w = Returned r w'"
    and "heap w this = Some p"
  shows "mSide p = ParentSide"
proof (cases "mSide p")
  case ParentSide
  then show ?thesis .
next
  case ChildSide
  from HandleSyncMessage_ChildSide [OF assms(2) ChildSide, of E aMessage aCall sched] assms(1)
  show ?thesis by (simp split: option.splits)
qed

lemma fire_shutdown_tasks:
  "fire E t w = Inr w' \<Longrightarrow> shutdown_tasks w' = Suc (shutdown_tasks w)"
  by (auto simp: fire_def OnChannelClose_def OnChannelError_def ForwardMessageAsync_def
      BeginShutdown_def PostTask_def shutdown_tasks_def
      split: trigger.splits option.splits if_splits)

lemma HandleMessageInMiddleman_fatal:
  "HandleMessageInMiddleman E aSide m = (ds, Inl f) \<Longrightarrow> f = Assert_MsgProcessed"
  by (auto simp: HandleMessageInMiddleman_def assert_processed_def Let_def split: if_splits)

lemma HandleMessageInMiddleman_channels:
  "HandleMessageInMiddleman (E\<lparr>Channel_Send := snd1, Channel_SendSync := snd2, Channel_Call := call\<rparr>)
     aSide m = HandleMessageInMiddleman E aSide m"
  by (simp add: HandleMessageInMiddleman_def Let_def)

lemma OnMessageReceived_status:
  "OnMessageReceived E this m w = Inr (r, w') \<Longrightarrow> r = MsgProcessed"
  by (auto simp: OnMessageReceived_def Let_def
      split: option.splits if_splits prod.splits sum.splits)

lemma OnMessageReceived_returns:
  assumes "heap w this = Some p"
    and "mOppositeMessageLoop p \<noteq> None \<or> mSide p = ChildSide"
    and "snd (HandleMessageInMiddleman E (mSide p) m) \<noteq> Inl Assert_MsgProcessed"
  shows "\<exists>w1. OnMessageReceived E this m w = Inr (MsgProcessed, w1)"
proof -
  obtain ds res where h: "HandleMessageInMiddleman E (mSide p) m = (ds, res)"
    by (cases "HandleMessageInMiddleman E (mSide p) m")
  with assms(3) HandleMessageInMiddleman_fatal [of E "mSide p" m ds]
  obtain b where b: "res = Inr b"
    by (cases res) auto
  show ?thesis
    using assms(1,2) h b
    by (auto simp: OnMessageReceived_def PostOppositeRunnable_def Let_def
        split: option.splits)
qed

section \<open>Claims about shutdown\<close>

text \<open>
  C7, as stated: a channel close detected on the worker-facing protocol posts a
  shutdown task instead of crashing. The worker-facing protocol is the parent
  protocol: \<open>ForwardingMessageLoopMain\<close> opens it on the recording process's channel,
  and \<open>InitializeForwarding\<close> constructs it with \<open>ParentSide\<close>. \<open>OnChannelClose\<close> asserts
  \<open>ChildSide\<close> first, so a close there ends in the release assertion.
\<close>

theorem C7_close_on_parent_protocol_counterexample:
  "InitializeForwarding MiddlemanRecording True initial_world = Inr recording_world \<and>
   gParentProtocol recording_world = Some 1 \<and>
   map_option channel_to (heap recording_world 1) = Some (Some RecordingProcess) \<and>
   OnChannelClose 1 recording_world = Inl Assert_Close_ChildSide"
  by (simp add: InitializeForwarding_recording)
     (simp add: recording_world_def OnChannelClose_def)

text \<open>
  C7, amended: a channel close detected on a \<open>ChildSide\<close> protocol (the UI-facing one)
  posts one shutdown task to the main thread and does not crash; on a \<open>ParentSide\<close>
  protocol (the worker-facing one) it fails the release assertion. A channel error
  posts one shutdown task on either side.
\<close>

theorem C7_close_posts_shutdown_on_child_side:
  assumes "heap w this = Some p"
  shows "OnChannelClose this w =
           (if mSide p = ChildSide
            then Inr (w\<lparr>main_loop_tasks := main_loop_tasks w @ [Shutdown_task]\<rparr>)
            else Inl Assert_Close_ChildSide) \<and>
         OnChannelError this w =
           Inr (w\<lparr>main_loop_tasks := main_loop_tasks w @ [Shutdown_task]\<rparr>)"
  using assms
  by (simp add: OnChannelClose_def OnChannelError_def BeginShutdown_def PostTask_def)

theorem C7_close_posts_shutdown_witness:
  "OnChannelClose 0 recording_world =
     Inr (recording_world\<lparr>main_loop_tasks := [Shutdown_task]\<rparr>) \<and>
   OnChannelError 1 recording_world =
     Inr (recording_world\<lparr>main_loop_tasks := [Shutdown_task]\<rparr>)"
proof -
  let ?c = "\<lparr>mSide = ChildSide, mOpposite = Some 1, mOppositeMessageLoop = Some ForwardingLoop,
            mSyncMessage = None, mSyncMessageReply = None, mSyncMessageIsCall = False,
            channel_to = None\<rparr>"
  let ?q = "\<lparr>mSide = ParentSide, mOpposite = Some 0, mOppositeMessageLoop = Some MainThreadLoop,
            mSyncMessage = None, mSyncMessageReply = None, mSyncMessageIsCall = False,
            channel_to = Some RecordingProcess\<rparr>"
  have c: "heap recording_world 0 = Some ?c" and q: "heap recording_world 1 = Some ?q"
    by (simp_all add: recording_world_def)
  have t: "main_loop_tasks recording_world = []"
    by (simp add: recording_world_def)
  from C7_close_posts_shutdown_on_child_side [OF c] C7_close_posts_shutdown_on_child_side [OF q] t
  show ?thesis by simp
qed

text \<open>
  C3, as stated: across any sequence of triggers the shutdown task is posted exactly
  once. \<open>BeginShutdown\<close> keeps no record of having run: two channel closes on the
  child protocol leave two shutdown tasks on the main thread's loop.
\<close>

theorem C3_two_closes_counterexample:
  "OnChannelClose 0 recording_world =
     Inr (recording_world\<lparr>main_loop_tasks := [Shutdown_task]\<rparr>) \<and>
   OnChannelClose 0 (recording_world\<lparr>main_loop_tasks := [Shutdown_task]\<rparr>) =
     Inr (recording_world\<lparr>main_loop_tasks := [Shutdown_task, Shutdown_task]\<rparr>) \<and>
   shutdown_tasks (recording_world\<lparr>main_loop_tasks := [Shutdown_task, Shutdown_task]\<rparr>) = 2"
  by (simp add: OnChannelClose_def BeginShutdown_def PostTask_def recording_world_def
      shutdown_tasks_def)

text \<open>
  C3, amended: every trigger that does not end in a release assertion (a channel
  close on a \<open>ChildSide\<close> protocol, a channel error, a failed asynchronous send on a
  \<open>ParentSide\<close> protocol) posts one more shutdown task: after \<open>n\<close> triggers the main
  thread's loop holds \<open>n\<close> more shutdown tasks than before.
\<close>

theorem C3_each_trigger_posts_a_shutdown_task:
  "fire_all E ts w = Inr w' \<Longrightarrow> shutdown_tasks w' = shutdown_tasks w + length ts"
proof (induction ts arbitrary: w)
  case Nil
  then show ?case by simp
next
  case (Cons t ts)
  then obtain w1 where f: "fire E t w = Inr w1" and r: "fire_all E ts w1 = Inr w'"
    by (auto split: sum.splits)
  from fire_shutdown_tasks [OF f] Cons.IH [OF r] show ?case by simp
qed

theorem C3_each_trigger_witness:
  "shutdown_tasks recording_world = 0 \<and>
   (case fire_all sample_env
      [Trigger_ChannelClose 0, Trigger_ChannelError 1, Trigger_SendFailure 1 ping,
       Trigger_ChannelClose 0]
      recording_world of Inr w \<Rightarrow> shutdown_tasks w = 4 | Inl f \<Rightarrow> False)"
proof -
  obtain w where w: "fire_all sample_env
      [Trigger_ChannelClose 0, Trigger_ChannelError 1, Trigger_SendFailure 1 ping,
       Trigger_ChannelClose 0]
      recording_world = Inr w"
    by (simp add: fire_def OnChannelClose_def OnChannelError_def ForwardMessageAsync_def
        BeginShutdown_def PostTask_def recording_world_def)
  have z: "shutdown_tasks recording_world = 0"
    by (simp add: shutdown_tasks_def recording_world_def)
  from C3_each_trigger_posts_a_shutdown_task [OF w] z have "shutdown_tasks w = 4" by simp
  with z show ?thesis unfolding w by simp
qed

section \<open>Claims about the receive handlers\<close>

text \<open>
  C10, as stated: every synchronous message received on the child-side protocol
  reaches the \<open>NYI\<close> crash after the transmit runnable has been posted. In a
  middleman without a recording process the child protocol has no opposite message
  loop, and \<open>HandleSyncMessage\<close> fails its first release assertion: nothing is
  posted and the crash is not the \<open>NYI\<close> one.
\<close>

theorem C10_no_opposite_loop_counterexample:
  "InitializeForwarding MiddlemanReplaying True initial_world = Inr replaying_world \<and>
   map_option mSide (heap replaying_world 0) = Some ChildSide \<and>
   HandleSyncMessage sample_env 0 ping False [] replaying_world =
     Stopped Assert_OppositeMessageLoop \<and>
   HandleSyncMessage_post 0 ping False replaying_world = Inl Assert_OppositeMessageLoop"
  by (simp add: InitializeForwarding_replaying)
     (simp add: replaying_world_def HandleSyncMessage_def HandleSyncMessage_post_def)

text \<open>
  C10, amended: every synchronous message received on a \<open>ChildSide\<close> protocol ends
  the process: with no opposite message loop by the release assertion, before
  anything is posted; otherwise by the \<open>NYI\<close> crash, after the message slot is set
  and the transmit runnable is posted to the opposite loop. So a call of
  \<open>HandleSyncMessage\<close> that returns was made on a \<open>ParentSide\<close> protocol.
\<close>

theorem C10_sync_on_child_side_is_fatal:
  assumes "heap w this = Some p"
  shows "(mSide p = ChildSide \<longrightarrow>
            HandleSyncMessage E this aMessage aCall sched w =
              (case mOppositeMessageLoop p of
                 None \<Rightarrow> Stopped Assert_OppositeMessageLoop
               | Some l \<Rightarrow> Stopped Crash_NYI) \<and>
            HandleSyncMessage_post this aMessage aCall w =
              (case mOppositeMessageLoop p of
                 None \<Rightarrow> Inl Assert_OppositeMessageLoop
               | Some l \<Rightarrow>
                   Inr (PostTask l (Runnable_task (StaticMaybeSendSyncMessage_run this))
                         (store this
                            (p\<lparr>mSyncMessage := Some aMessage, mSyncMessageIsCall := aCall\<rparr>) w)))) \<and>
         (\<forall>r w'. HandleSyncMessage E this aMessage aCall sched w = Returned r w' \<longrightarrow>
            mSide p = ParentSide)"
proof (intro conjI impI allI)
  assume c: "mSide p = ChildSide"
  show "HandleSyncMessage E this aMessage aCall sched w =
      (case mOppositeMessageLoop p of
         None \<Rightarrow> Stopped Assert_OppositeMessageLoop
       | Some l \<Rightarrow> Stopped Crash_NYI)"
    by (rule HandleSyncMessage_ChildSide [OF assms c])
  show "HandleSyncMessage_post this aMessage aCall w =
      (case mOppositeMessageLoop p of
         None \<Rightarrow> Inl Assert_OppositeMessageLoop
       | Some l \<Rightarrow>
           Inr (PostTask l (Runnable_task (StaticMaybeSendSyncMessage_run this))
                 (store this
                    (p\<lparr>mSyncMessage := Some aMessage, mSyncMessageIsCall := aCall\<rparr>) w)))"
    using assms c
    by (auto simp: HandleSyncMessage_post_def PostOppositeRunnable_def store_def
        split: option.splits)
next
  fix r w'
  assume "HandleSyncMessage E this aMessage aCall sched w = Returned r w'"
  from HandleSyncMessage_Returned_ParentSide [OF this assms]
  show "mSide p = ParentSide" .
qed

theorem C10_sync_on_child_side_witness:
  "HandleSyncMessage sample_env 0 ping True [Turn_next_task] recording_world = Stopped Crash_NYI \<and>
   HandleSyncMessage_post 0 ping True recording_world =
     Inr (PostTask ForwardingLoop (Runnable_task (StaticMaybeSendSyncMessage_run 0))
           (store 0 \<lparr>mSide = ChildSide, mOpposite = Some 1,
                     mOppositeMessageLoop = Some ForwardingLoop,
                     mSyncMessage = Some ping, mSyncMessageReply = None,
                     mSyncMessageIsCall = True, channel_to = None\<rparr> recording_world)) \<and>
   HandleSyncMessage sample_env 0 ping True [] replaying_world =
     Stopped Assert_OppositeMessageLoop \<and>
   map_option mSide (heap recording_world 1) = Some ParentSide \<and>
   (\<exists>w'. HandleSyncMessage sample_env 1 ping False [Turn_next_task] recording_world =
           Returned pong w')"
proof -
  let ?c = "\<lparr>mSide = ChildSide, mOpposite = Some 1, mOppositeMessageLoop = Some ForwardingLoop,
            mSyncMessage = None, mSyncMessageReply = None, mSyncMessageIsCall = False,
            channel_to = None\<rparr>"
  let ?r = "\<lparr>mSide = ChildSide, mOpposite = None, mOppositeMessageLoop = None,
            mSyncMessage = None, mSyncMessageReply = None, mSyncMessageIsCall = False,
            channel_to = None\<rparr>"
  let ?q = "\<lparr>mSide = ParentSide, mOpposite = Some 0, mOppositeMessageLoop = Some MainThreadLoop,
            mSyncMessage = None, mSyncMessageReply = None, mSyncMessageIsCall = False,
            channel_to = Some RecordingProcess\<rparr>"
  have c: "heap recording_world 0 = Some ?c" and q: "heap recording_world 1 = Some ?q"
    by (simp_all add: recording_world_def)
  have r: "heap replaying_world 0 = Some ?r"
    by (simp add: replaying_world_def)
  have ret: "HandleSyncMessage sample_env 1 ping False [Turn_next_task] recording_world =
      Returned pong (recording_world\<lparr>notified := 2, ran := [StaticMaybeSendSyncMessage_run 1]\<rparr>)"
    by (simp add: exec_defs ProcessMainThreadRunnables_loop.simps recording_world_def
        sample_env_def)
  from C10_sync_on_child_side_is_fatal [OF q, of sample_env ping False "[Turn_next_task]"] ret
  have side: "mSide ?q = ParentSide" by blast
  from C10_sync_on_child_side_is_fatal [OF c, of sample_env ping True "[Turn_next_task]"]
    C10_sync_on_child_side_is_fatal [OF r, of sample_env ping True "[]"]
  show ?thesis using q ret side by simp
qed

text \<open>
  C2, as stated: a second synchronous send on a protocol whose message slot is
  still set fails fast and never overwrites the first message.
  \<open>HandleSyncMessage\<close> does not read the slot before writing it: on the parent
  protocol with \<open>ping\<close> pending, a second call with \<open>ping2\<close> replaces \<open>ping\<close>, posts a
  second transmit runnable and waits.
\<close>

theorem C2_second_send_overwrites_counterexample:
  "map_option mSyncMessage (heap pending_world 1) = Some (Some ping) \<and>
   HandleSyncMessage sample_env 1 ping2 False [] pending_world =
     Blocked (NotifyAll
       ((store 1 \<lparr>mSide = ParentSide, mOpposite = Some 0,
                   mOppositeMessageLoop = Some MainThreadLoop,
                   mSyncMessage = Some ping2, mSyncMessageReply = None,
                   mSyncMessageIsCall = False, channel_to = Some RecordingProcess\<rparr>
           pending_world)
         \<lparr>gMainThreadRunnables :=
            [StaticMaybeSendSyncMessage_run 1, StaticMaybeSendSyncMessage_run 1]\<rparr>))"
  by (simp add: pending_world_def HandleSyncMessage_def HandleSyncMessage_post_def
      PostOppositeRunnable_def DispatchToMainThread_def store_def NotifyAll_def Let_def)

text \<open>
  C2, amended: \<open>HandleSyncMessage\<close> makes no check of the message slot. On a
  \<open>ParentSide\<close> protocol with an opposite message loop, whatever the slot holds, the
  call stores the new message and the call flag in it and enqueues another transmit
  runnable for the main thread; with an empty reply slot it then waits for a reply.
\<close>

theorem C2_second_send_replaces_pending_message:
  assumes "heap w this = Some p" and "mSide p = ParentSide" and "mOppositeMessageLoop p \<noteq> None"
  shows "HandleSyncMessage_post this aMessage aCall w =
           Inr (DispatchToMainThread (StaticMaybeSendSyncMessage_run this)
                 (store this (p\<lparr>mSyncMessage := Some aMessage, mSyncMessageIsCall := aCall\<rparr>) w)) \<and>
         (mSyncMessageReply p = None \<longrightarrow>
            HandleSyncMessage E this aMessage aCall [] w =
              Blocked (NotifyAll (DispatchToMainThread (StaticMaybeSendSyncMessage_run this)
                 (store this (p\<lparr>mSyncMessage := Some aMessage, mSyncMessageIsCall := aCall\<rparr>) w))))"
  using assms
  by (auto simp: HandleSyncMessage_def HandleSyncMessage_post_def PostOppositeRunnable_def
      store_def DispatchToMainThread_def PostTask_def NotifyAll_def Let_def)

theorem C2_second_send_witness:
  "map_option mSyncMessage (heap pending_world 1) = Some (Some ping) \<and>
   (case HandleSyncMessage_post 1 ping2 True pending_world of
      Inl f \<Rightarrow> False
    | Inr w \<Rightarrow>
        map_option mSyncMessage (heap w 1) = Some (Some ping2) \<and>
        map_option mSyncMessageIsCall (heap w 1) = Some True \<and>
        gMainThreadRunnables w =
          [StaticMaybeSendSyncMessage_run 1, StaticMaybeSendSyncMessage_run 1]) \<and>
   (case HandleSyncMessage sample_env 1 ping2 True [] pending_world of
      Blocked w \<Rightarrow> map_option mSyncMessage (heap w 1) = Some (Some ping2)
    | _ \<Rightarrow> False)"
proof -
  let ?q = "\<lparr>mSide = ParentSide, mOpposite = Some 0, mOppositeMessageLoop = Some MainThreadLoop,
            mSyncMessage = Some ping, mSyncMessageReply = None, mSyncMessageIsCall = False,
            channel_to = Some RecordingProcess\<rparr>"
  have q: "heap pending_world 1 = Some ?q"
    by (simp add: pending_world_def)
  have "mSide ?q = ParentSide" and "mOppositeMessageLoop ?q \<noteq> None"
    by simp_all
  from C2_second_send_replaces_pending_message [OF q this, of ping2 True sample_env]
  show ?thesis
    using q
    by (simp add: DispatchToMainThread_def store_def NotifyAll_def PostTask_def Let_def)
       (simp add: pending_world_def)
qed

text \<open>
  C9, as stated: for every message received on a protocol the asynchronous and the
  synchronous handlers always return the processed status. On the child protocol a
  synchronous message never returns to the transport layer: both synchronous
  handlers end in the \<open>NYI\<close> crash.
\<close>

theorem C9_sync_handlers_on_child_counterexample:
  "OnMessageReceived_sync sample_env 0 ping [] recording_world = Stopped Crash_NYI \<and>
   OnCallReceived sample_env 0 ping [] recording_world = Stopped Crash_NYI"
  by (simp add: OnMessageReceived_sync_def OnCallReceived_def HandleSyncMessage_def
      HandleSyncMessage_post_def PostOppositeRunnable_def store_def PostTask_def
      recording_world_def)

text \<open>
  C9, amended: whenever one of the three handlers returns to the transport layer,
  the status is \<open>MsgProcessed\<close>, however the message was classified. The asynchronous
  handler does return it whenever the protocol has an opposite message loop or is
  on \<open>ChildSide\<close> and no local delivery fails its release assertion. What the
  channels do later has no part in the result: the handler gives the same outcome
  for any behaviour of \<open>Send\<close> and \<open>Call\<close>.
\<close>

theorem C9_returned_status_is_processed:
  "(OnMessageReceived E this m w = Inr (r, w') \<longrightarrow> r = MsgProcessed) \<and>
   (OnMessageReceived_sync E this m sched w = Returned (r, reply) w' \<longrightarrow> r = MsgProcessed) \<and>
   (OnCallReceived E this m sched w = Returned (r, reply) w' \<longrightarrow> r = MsgProcessed) \<and>
   (\<forall>p. heap w this = Some p \<and> (mOppositeMessageLoop p \<noteq> None \<or> mSide p = ChildSide) \<and>
        snd (HandleMessageInMiddleman E (mSide p) m) \<noteq> Inl Assert_MsgProcessed \<longrightarrow>
        (\<exists>w1. OnMessageReceived E this m w = Inr (MsgProcessed, w1))) \<and>
   OnMessageReceived (E\<lparr>Channel_Send := snd1, Channel_SendSync := snd2, Channel_Call := call\<rparr>)
     this m w = OnMessageReceived E this m w"
proof (intro conjI)
  show "OnMessageReceived E this m w = Inr (r, w') \<longrightarrow> r = MsgProcessed"
    using OnMessageReceived_status by blast
  show "OnMessageReceived_sync E this m sched w = Returned (r, reply) w' \<longrightarrow> r = MsgProcessed"
    by (auto simp: OnMessageReceived_sync_def split: outcome.splits)
  show "OnCallReceived E this m sched w = Returned (r, reply) w' \<longrightarrow> r = MsgProcessed"
    by (auto simp: OnCallReceived_def split: outcome.splits)
  show "\<forall>p. heap w this = Some p \<and> (mOppositeMessageLoop p \<noteq> None \<or> mSide p = ChildSide) \<and>
        snd (HandleMessageInMiddleman E (mSide p) m) \<noteq> Inl Assert_MsgProcessed \<longrightarrow>
        (\<exists>w1. OnMessageReceived E this m w = Inr (MsgProcessed, w1))"
    using OnMessageReceived_returns by blast
  show "OnMessageReceived (E\<lparr>Channel_Send := snd1, Channel_SendSync := snd2, Channel_Call := call\<rparr>)
     this m w = OnMessageReceived E this m w"
    unfolding OnMessageReceived_def HandleMessageInMiddleman_channels ..
qed

theorem C9_returned_status_witness:
  "(\<exists>w1. OnMessageReceived failing_env 0 stray_msg recording_world = Inr (MsgProcessed, w1)) \<and>
   (\<exists>w1. OnCallReceived sample_env 1 ping [Turn_next_task] recording_world =
            Returned (MsgProcessed, pong) w1)"
proof -
  let ?c = "\<lparr>mSide = ChildSide, mOpposite = Some 1, mOppositeMessageLoop = Some ForwardingLoop,
            mSyncMessage = None, mSyncMessageReply = None, mSyncMessageIsCall = False,
            channel_to = None\<rparr>"
  have c: "heap recording_world 0 = Some ?c"
    by (simp add: recording_world_def)
  have ok: "snd (HandleMessageInMiddleman failing_env (mSide ?c) stray_msg) \<noteq>
      Inl Assert_MsgProcessed"
    by (simp add: HandleMessageInMiddleman_def both_processes_def failing_env_def sample_env_def
        sample_ids_def stray_msg_def)
  have call: "OnCallReceived sample_env 1 ping [Turn_next_task] recording_world =
      Returned (MsgProcessed, pong)
        (recording_world\<lparr>heap := (heap recording_world)
            (1 \<mapsto> \<lparr>mSide = ParentSide, mOpposite = Some 0,
                    mOppositeMessageLoop = Some MainThreadLoop,
                    mSyncMessage = None, mSyncMessageReply = None,
                    mSyncMessageIsCall = True, channel_to = Some RecordingProcess\<rparr>),
          notified := 2, ran := [StaticMaybeSendSyncMessage_run 1]\<rparr>)"
    by (simp add: OnCallReceived_def exec_defs ProcessMainThreadRunnables_loop.simps
        recording_world_def sample_env_def)
  have "\<forall>p. heap recording_world 0 = Some p \<and>
          (mOppositeMessageLoop p \<noteq> None \<or> mSide p = ChildSide) \<and>
          snd (HandleMessageInMiddleman failing_env (mSide p) stray_msg) \<noteq> Inl Assert_MsgProcessed \<longrightarrow>
          (\<exists>w1. OnMessageReceived failing_env 0 stray_msg recording_world = Inr (MsgProcessed, w1))"
    using C9_returned_status_is_processed
      [where E = failing_env and this = 0 and m = stray_msg and w = recording_world]
    by blast
  with c ok have "\<exists>w1. OnMessageReceived failing_env 0 stray_msg recording_world =
      Inr (MsgProcessed, w1)"
    by simp
  with call show ?thesis by simp
qed

section \<open>Facts about the synchronous exchange\<close>

lemma MaybeSendSyncMessage_success:
  assumes "heap w this = Some p" and "mSyncMessage p = Some m" and "mSyncMessageReply p = None"
    and "mOpposite p = Some opp"
    and "(if mSyncMessageIsCall p then Channel_Call E opp m else Channel_SendSync E opp m) = (True, r)"
  shows "MaybeSendSyncMessage E this w =
           Inr (w\<lparr>heap := (heap w)(this \<mapsto> p\<lparr>mSyncMessageReply := Some r, mSyncMessage := None\<rparr>),
                  notified := Suc (notified w)\<rparr>)"
  using assms
  by (simp add: MaybeSendSyncMessage_def MaybeSendSyncMessage_prepare_def
      MaybeSendSyncMessage_transmit_def MaybeSendSyncMessage_finish_def store_def NotifyAll_def
      split: if_splits)

lemma MaybeSendSyncMessage_failure:
  assumes "heap w this = Some p" and "mSyncMessage p = Some m" and "mSyncMessageReply p = None"
    and "mOpposite p = Some opp"
    and "(if mSyncMessageIsCall p then Channel_Call E opp m else Channel_SendSync E opp m) = (False, r)"
  shows "MaybeSendSyncMessage E this w =
           (if mSide p = ChildSide then
              Inr (w\<lparr>main_loop_tasks := main_loop_tasks w @ [Shutdown_task],
                     heap := (heap w)(this \<mapsto> p\<lparr>mSyncMessageReply := Some r, mSyncMessage := None\<rparr>),
                     notified := Suc (notified w)\<rparr>)
            else Inl Assert_SyncSend_ChildSide)"
  using assms
  by (simp add: MaybeSendSyncMessage_def MaybeSendSyncMessage_prepare_def
      MaybeSendSyncMessage_transmit_def MaybeSendSyncMessage_finish_def store_def NotifyAll_def
      BeginShutdown_def PostTask_def
      split: if_splits)

lemma MaybeSendSyncMessage_assert:
  assumes "heap w this = Some p" and "mSyncMessage p \<noteq> None" and "mSyncMessageReply p \<noteq> None"
  shows "MaybeSendSyncMessage E this w = Inl Assert_NoSyncMessageReply"
  using assms
  by (auto simp: MaybeSendSyncMessage_def MaybeSendSyncMessage_prepare_def)

lemma wait_for_reply_ready:
  assumes "heap w this \<noteq> None" and "mSyncMessageReply (the (heap w this)) \<noteq> None"
  shows "wait_for_reply E this sched w = Returned () w"
  using assms by (cases sched) auto

lemma exchange_success:
  assumes "heap w this = Some p" and "mSide p = ParentSide" and "mOppositeMessageLoop p \<noteq> None"
    and "mSyncMessageReply p = None" and "mOpposite p = Some opp"
    and "gParentProtocol w = Some this" and "gMainThreadRunnables w = []"
    and "(if aCall then Channel_Call E opp aMessage else Channel_SendSync E opp aMessage) = (True, r)"
  shows "\<exists>w1 w2 w3.
           HandleSyncMessage_post this aMessage aCall w = Inr w1 \<and>
           slots this w1 = Some (Some aMessage, None) \<and>
           MaybeSendSyncMessage E this (NotifyAll w1) = Inr w2 \<and>
           slots this w2 = Some (None, Some r) \<and>
           notified w2 = Suc (notified (NotifyAll w1)) \<and>
           HandleSyncMessage E this aMessage aCall (Turn_MaybeHandleForwardedMessages # sched) w =
             Returned r w3 \<and>
           slots this w3 = Some (None, None)"
  using assms
  by (auto simp: exec_defs ProcessMainThreadRunnables_loop.simps slots_def wait_for_reply_ready
      split: if_splits)

lemma exchange_failure:
  assumes "heap w this = Some p" and "mSide p = ParentSide" and "mOppositeMessageLoop p \<noteq> None"
    and "mSyncMessageReply p = None" and "mOpposite p = Some opp"
    and "gParentProtocol w = Some this"
    and "(if aCall then Channel_Call E opp aMessage else Channel_SendSync E opp aMessage) = (False, r)"
  shows "HandleSyncMessage E this aMessage aCall (Turn_MaybeHandleForwardedMessages # sched) w =
           Stopped Assert_SyncSend_ChildSide"
  using assms
  by (auto simp: exec_defs split: if_splits)

lemma MaybeSendSyncMessage_slots:
  "MaybeSendSyncMessage E q w = Inr w' \<Longrightarrow> slots_ok r w \<Longrightarrow> slots_ok r w'"
  by (auto simp: MaybeSendSyncMessage_def MaybeSendSyncMessage_prepare_def
      MaybeSendSyncMessage_transmit_def MaybeSendSyncMessage_finish_def store_def NotifyAll_def
      BeginShutdown_def PostTask_def slots_ok_def at_most_one_slot_def Let_def
      split: option.splits if_splits prod.splits sum.splits)

lemma ForwardMessageAsync_heap:
  "ForwardMessageAsync E a m w = Inr w' \<Longrightarrow> heap w' = heap w"
  by (auto simp: ForwardMessageAsync_def BeginShutdown_def PostTask_def
      split: option.splits if_splits)

lemma slots_ok_heap: "heap w' = heap w \<Longrightarrow> slots_ok q w' = slots_ok q w"
  by (simp add: slots_ok_def)

lemma Run_slots:
  "Run E r w = Inr w' \<Longrightarrow> slots_ok q w \<Longrightarrow> slots_ok q w'"
proof (cases r)
  case (ForwardMessageAsync_run a m)
  assume "Run E r w = Inr w'" and ok: "slots_ok q w"
  with ForwardMessageAsync_run
  have "ForwardMessageAsync E a m (w\<lparr>ran := ran w @ [r]\<rparr>) = Inr w'"
    by (simp add: Run_def)
  from ForwardMessageAsync_heap [OF this] ok show ?thesis
    by (simp add: slots_ok_def)
next
  case (StaticMaybeSendSyncMessage_run a)
  assume "Run E r w = Inr w'" and ok: "slots_ok q w"
  with StaticMaybeSendSyncMessage_run
  have "MaybeSendSyncMessage E a (w\<lparr>ran := ran w @ [r]\<rparr>) = Inr w'"
    by (simp add: Run_def)
  moreover from ok have "slots_ok q (w\<lparr>ran := ran w @ [r]\<rparr>)"
    by (simp add: slots_ok_def)
  ultimately show ?thesis by (rule MaybeSendSyncMessage_slots)
qed



lemma loop_slots:
  "ProcessMainThreadRunnables_loop E i w = Inr w' \<Longrightarrow> slots_ok q w \<Longrightarrow> slots_ok q w'"
proof (induction E i w rule: ProcessMainThreadRunnables_loop.induct)
  case (1 E i w)
  show ?case
  proof (cases "i < length (gMainThreadRunnables w)")
    case False
    with "1.prems" show ?thesis
      by (simp add: ProcessMainThreadRunnables_loop.simps [of E i w])
  next
    case True
    with "1.prems" obtain w1 where
      run: "Run E (gMainThreadRunnables w ! i) w = Inr w1" and
      rest: "ProcessMainThreadRunnables_loop E (Suc i) w1 = Inr w'"
      by (auto simp: ProcessMainThreadRunnables_loop.simps [of E i w] split: sum.splits)
    from "1.IH" [OF True run rest Run_slots [OF run "1.prems"(2)]] show ?thesis .
  qed
qed

lemma ProcessMainThreadRunnables_slots:
  assumes "ProcessMainThreadRunnables E w = Inr w'" and "slots_ok q w"
  shows "slots_ok q w'"
proof -
  from assms(1) obtain w1 where
    l: "ProcessMainThreadRunnables_loop E 0 w = Inr w1" and
    w': "w' = w1\<lparr>gMainThreadRunnables := [], gPostedProcessMainThreadRunnables := False\<rparr>"
    by (auto simp: ProcessMainThreadRunnables_def split: sum.splits)
  from loop_slots [OF l assms(2)] w' show ?thesis
    by (simp add: slots_ok_def)
qed

lemma MaybeHandleForwardedMessages_slots:
  assumes "MaybeHandleForwardedMessages E w = Inr w'" and "slots_ok q w"
  shows "slots_ok q w'"
proof (cases "gParentProtocol w")
  case None
  with assms show ?thesis
    by (auto simp: MaybeHandleForwardedMessages_def intro: ProcessMainThreadRunnables_slots)
next
  case (Some a)
  with assms(1) obtain w1 where
    s: "MaybeSendSyncMessage E a w = Inr w1" and d: "ProcessMainThreadRunnables E w1 = Inr w'"
    by (auto simp: MaybeHandleForwardedMessages_def split: sum.splits)
  from ProcessMainThreadRunnables_slots [OF d MaybeSendSyncMessage_slots [OF s assms(2)]]
  show ?thesis .
qed

lemma main_thread_step_slots:
  assumes "main_thread_step E a w = Inr w'" and "slots_ok q w"
  shows "slots_ok q w'"
proof (cases a)
  case Turn_MaybeHandleForwardedMessages
  with assms show ?thesis
    by (auto simp: main_thread_step_def intro: MaybeHandleForwardedMessages_slots)
next
  case Turn_next_task
  show ?thesis
  proof (cases "main_loop_tasks w")
    case Nil
    with assms Turn_next_task show ?thesis
      by (simp add: main_thread_step_def)
  next
    case (Cons t ts)
    have ok: "slots_ok q (w\<lparr>main_loop_tasks := ts\<rparr>)"
      using assms(2) by (simp add: slots_ok_def)
    show ?thesis
    proof (cases t)
      case Shutdown_task
      with assms Turn_next_task Cons show ?thesis
        by (simp add: main_thread_step_def)
    next
      case ProcessMainThreadRunnables_task
      with assms(1) Turn_next_task Cons
      have "ProcessMainThreadRunnables E (w\<lparr>main_loop_tasks := ts\<rparr>) = Inr w'"
        by (simp add: main_thread_step_def)
      from ProcessMainThreadRunnables_slots [OF this ok] show ?thesis .
    next
      case (Runnable_task r)
      with assms(1) Turn_next_task Cons
      have "Run E r (w\<lparr>main_loop_tasks := ts\<rparr>) = Inr w'"
        by (simp add: main_thread_step_def)
      from Run_slots [OF this ok] show ?thesis .
    qed
  qed
qed

lemma wait_points_slots:
  "slots_ok q w \<Longrightarrow> w' \<in> set (wait_points E this sched w) \<Longrightarrow> slots_ok q w'"
proof (induction sched arbitrary: w)
  case Nil
  then show ?case by simp
next
  case (Cons a sched)
  show ?case
  proof (cases "w' = w")
    case True
    with Cons.prems(1) show ?thesis by simp
  next
    case False
    with Cons.prems(2) have m: "w' \<in> set (case heap w this of
          None \<Rightarrow> []
        | Some p \<Rightarrow>
            if mSyncMessageReply p \<noteq> None then []
            else (case main_thread_step E a w of
                    Inl f \<Rightarrow> []
                  | Inr w1 \<Rightarrow> wait_points E this sched w1))"
      by simp
    show ?thesis
    proof (cases "heap w this")
      case None
      with m show ?thesis by simp
    next
      case (Some p)
      show ?thesis
      proof (cases "main_thread_step E a w")
        case (Inl f)
        with m Some show ?thesis by (simp split: if_splits)
      next
        case (Inr w1)
        with m Some have "w' \<in> set (wait_points E this sched w1)"
          by (simp split: if_splits)
        from Cons.IH [OF main_thread_step_slots [OF Inr Cons.prems(1)] this] show ?thesis .
      qed
    qed
  qed
qed

lemma wait_for_reply_in_points:
  "wait_for_reply E this sched w = Returned u w' \<Longrightarrow> w' \<in> set (wait_points E this sched w)"
proof (induction sched arbitrary: w)
  case Nil
  then show ?case by (auto split: option.splits if_splits)
next
  case (Cons a sched)
  then show ?case
    by (auto split: option.splits if_splits sum.splits)
qed

lemma HandleSyncMessage_post_slots:
  assumes "HandleSyncMessage_post this aMessage aCall w = Inr w1"
    and "heap w this = Some p" and "mSyncMessageReply p = None" and "slots_ok q w"
  shows "slots_ok q (NotifyAll w1)"
  using assms
  by (auto simp: HandleSyncMessage_post_def PostOppositeRunnable_def DispatchToMainThread_def
      PostTask_def store_def NotifyAll_def slots_ok_def at_most_one_slot_def Let_def
      split: option.splits if_splits loop_id.splits)

lemma HandleSyncMessage_take_slots:
  assumes "HandleSyncMessage_take this w = Returned r w'" and "slots_ok q w"
  shows "slots_ok q w'"
  using assms
  by (auto simp: HandleSyncMessage_take_def store_def slots_ok_def at_most_one_slot_def
      split: option.splits if_splits)

lemma prepare_both_set:
  assumes "heap w q = Some p" and "mSyncMessage p = Some m" and "mSyncMessageReply p = None"
  shows "MaybeSendSyncMessage_prepare q w =
           Inr (Some (m, store q (p\<lparr>mSyncMessageReply := Some Message_new\<rparr>) w)) \<and>
         \<not> slots_ok q (store q (p\<lparr>mSyncMessageReply := Some Message_new\<rparr>) w)"
  using assms
  by (simp add: MaybeSendSyncMessage_prepare_def store_def slots_ok_def at_most_one_slot_def)

lemma wait_for_reply_Returned_reply:
  "wait_for_reply E this sched w = Returned u w' \<Longrightarrow>
     \<exists>p. heap w' this = Some p \<and> mSyncMessageReply p \<noteq> None"
proof (induction sched arbitrary: w)
  case Nil
  then show ?case by (auto split: option.splits if_splits)
next
  case (Cons a sched)
  then show ?case
    by (auto split: option.splits if_splits sum.splits)
qed

lemma HandleSyncMessage_Returned_slots:
  assumes "heap w this = Some p" and "mSyncMessageReply p = None"
    and "HandleSyncMessage E this aMessage aCall sched w = Returned r w2"
  shows "slots this w2 = Some (None, None)"
proof -
  from assms(3) obtain w1 where po: "HandleSyncMessage_post this aMessage aCall w = Inr w1"
    by (auto simp: HandleSyncMessage_def split: sum.splits)
  with assms(3) obtain u w3 where
    wt: "wait_for_reply E this sched (NotifyAll w1) = Returned u w3" and
    tk: "HandleSyncMessage_take this w3 = Returned r w2"
    by (auto simp: HandleSyncMessage_def split: option.splits if_splits outcome.splits)
  have "slots_ok this w"
    using assms(1,2) by (simp add: slots_ok_def at_most_one_slot_def)
  from wait_points_slots [OF HandleSyncMessage_post_slots [OF po assms(1,2) this]
      wait_for_reply_in_points [OF wt]]
  have ok: "slots_ok this w3" .
  from wait_for_reply_Returned_reply [OF wt] obtain p3 where
    p3: "heap w3 this = Some p3" "mSyncMessageReply p3 \<noteq> None"
    by blast
  with ok have "mSyncMessage p3 = None"
    by (simp add: slots_ok_def at_most_one_slot_def)
  with p3 tk show ?thesis
    by (auto simp: HandleSyncMessage_take_def store_def slots_def split: option.splits)
qed

section \<open>Claims about the synchronous exchange\<close>

text \<open>
  C1, as stated: at every point of execution at most one of \<open>mSyncMessage\<close> and
  \<open>mSyncMessageReply\<close> is non-null. \<open>MaybeSendSyncMessage\<close> allocates the reply
  buffer while the message is still pending and clears the message only after the
  send: in between, both slots are set.
\<close>

theorem C1_both_slots_set_counterexample:
  "HandleSyncMessage_post 1 ping False recording_world = Inr pending_world \<and>
   slots 1 pending_world = Some (Some ping, None) \<and>
   (case MaybeSendSyncMessage_prepare 1 pending_world of
      Inr (Some (m, w)) \<Rightarrow> slots 1 w = Some (Some ping, Some Message_new) \<and> \<not> slots_ok 1 w
    | _ \<Rightarrow> False)"
proof -
  have "slots 1 pending_world = Some (Some ping, None) \<and>
   (case MaybeSendSyncMessage_prepare 1 pending_world of
      Inr (Some (m, w)) \<Rightarrow> slots 1 w = Some (Some ping, Some Message_new) \<and> \<not> slots_ok 1 w
    | _ \<Rightarrow> False)"
    by (simp add: pending_world_def MaybeSendSyncMessage_prepare_def store_def slots_def
        slots_ok_def at_most_one_slot_def)
  with HandleSyncMessage_post_ping show ?thesis by (rule conjI)
qed

text \<open>
  C1, amended: whenever the monitor is free during a synchronous exchange, at most
  one of the two slots is set. For a call of \<open>HandleSyncMessage\<close> entered with an
  empty reply slot, this holds for every protocol object in every world in which
  the waiting thread checks its loop condition, whatever the main thread does in
  between, and in the world the call returns in, where both slots of the receiving
  protocol are empty again. \<open>MaybeSendSyncMessage\<close> called with a message pending and
  the reply slot already set fails its release assertion. Inside
  \<open>MaybeSendSyncMessage\<close>, with the monitor held, both slots are set from the
  allocation of the reply buffer until the message slot is cleared.
\<close>

theorem C1_at_most_one_slot_between_steps:
  assumes "heap w this = Some p" and "mSyncMessageReply p = None"
    and "HandleSyncMessage_post this aMessage aCall w = Inr w1"
  shows "(\<forall>q. slots_ok q w \<longrightarrow>
            (\<forall>w' \<in> set (wait_points E this sched (NotifyAll w1)). slots_ok q w') \<and>
            (\<forall>r w2. HandleSyncMessage E this aMessage aCall sched w = Returned r w2 \<longrightarrow>
               slots_ok q w2)) \<and>
         slots_ok this w \<and>
         (\<forall>r w2. HandleSyncMessage E this aMessage aCall sched w = Returned r w2 \<longrightarrow>
            slots this w2 = Some (None, None)) \<and>
         (\<forall>q w0 p0. heap w0 q = Some p0 \<and> mSyncMessage p0 \<noteq> None \<and> mSyncMessageReply p0 \<noteq> None \<longrightarrow>
            MaybeSendSyncMessage E q w0 = Inl Assert_NoSyncMessageReply) \<and>
         (\<forall>q w0 p0 m. heap w0 q = Some p0 \<and> mSyncMessage p0 = Some m \<and> mSyncMessageReply p0 = None \<longrightarrow>
            MaybeSendSyncMessage_prepare q w0 =
              Inr (Some (m, store q (p0\<lparr>mSyncMessageReply := Some Message_new\<rparr>) w0)) \<and>
            \<not> slots_ok q (store q (p0\<lparr>mSyncMessageReply := Some Message_new\<rparr>) w0))"
proof (intro conjI allI impI ballI)
  fix q w'
  assume ok: "slots_ok q w" and m: "w' \<in> set (wait_points E this sched (NotifyAll w1))"
  from wait_points_slots [OF HandleSyncMessage_post_slots [OF assms(3,1,2) ok] m]
  show "slots_ok q w'" .
next
  fix q r w2
  assume ok: "slots_ok q w"
    and ret: "HandleSyncMessage E this aMessage aCall sched w = Returned r w2"
  from ret assms(3) obtain u w3 where
    wt: "wait_for_reply E this sched (NotifyAll w1) = Returned u w3" and
    tk: "HandleSyncMessage_take this w3 = Returned r w2"
    by (auto simp: HandleSyncMessage_def split: option.splits if_splits outcome.splits)
  from wait_points_slots [OF HandleSyncMessage_post_slots [OF assms(3,1,2) ok]
      wait_for_reply_in_points [OF wt]]
  have "slots_ok q w3" .
  from HandleSyncMessage_take_slots [OF tk this] show "slots_ok q w2" .
next
  from assms(1,2) show "slots_ok this w"
    by (simp add: slots_ok_def at_most_one_slot_def)
next
  fix r w2
  assume "HandleSyncMessage E this aMessage aCall sched w = Returned r w2"
  from HandleSyncMessage_Returned_slots [OF assms(1,2) this]
  show "slots this w2 = Some (None, None)" .
next
  fix q and w0 :: world and p0
  assume "heap w0 q = Some p0 \<and> mSyncMessage p0 \<noteq> None \<and> mSyncMessageReply p0 \<noteq> None"
  then show "MaybeSendSyncMessage E q w0 = Inl Assert_NoSyncMessageReply"
    using MaybeSendSyncMessage_assert by blast
next
  fix q and w0 :: world and p0 m
  assume a: "heap w0 q = Some p0 \<and> mSyncMessage p0 = Some m \<and> mSyncMessageReply p0 = None"
  with prepare_both_set [of w0 q p0 m]
  show "MaybeSendSyncMessage_prepare q w0 =
      Inr (Some (m, store q (p0\<lparr>mSyncMessageReply := Some Message_new\<rparr>) w0))"
    by simp
  from a prepare_both_set [of w0 q p0 m]
  show "\<not> slots_ok q (store q (p0\<lparr>mSyncMessageReply := Some Message_new\<rparr>) w0)"
    by simp
qed

theorem C1_at_most_one_slot_witness:
  "map (slots 1) (wait_points sample_env 1 [Turn_next_task] (NotifyAll pending_world)) =
     [Some (Some ping, None), Some (None, Some pong)] \<and>
   list_all (slots_ok 1) (wait_points sample_env 1 [Turn_next_task] (NotifyAll pending_world)) \<and>
   (\<exists>w2. HandleSyncMessage sample_env 1 ping False [Turn_next_task] recording_world =
            Returned pong w2 \<and> slots 1 w2 = Some (None, None)) \<and>
   MaybeSendSyncMessage sample_env 1 clash_world = Inl Assert_NoSyncMessageReply"
proof -
  let ?q = "\<lparr>mSide = ParentSide, mOpposite = Some 0, mOppositeMessageLoop = Some MainThreadLoop,
            mSyncMessage = None, mSyncMessageReply = None, mSyncMessageIsCall = False,
            channel_to = Some RecordingProcess\<rparr>"
  let ?b = "\<lparr>mSide = ParentSide, mOpposite = Some 0, mOppositeMessageLoop = Some MainThreadLoop,
            mSyncMessage = Some ping, mSyncMessageReply = Some pong, mSyncMessageIsCall = False,
            channel_to = Some RecordingProcess\<rparr>"
  have q: "heap recording_world 1 = Some ?q"
    by (simp add: recording_world_def)
  have r: "mSyncMessageReply ?q = None"
    by simp
  have b: "heap clash_world 1 = Some ?b \<and> mSyncMessage ?b \<noteq> None \<and> mSyncMessageReply ?b \<noteq> None"
    by (simp add: clash_world_def store_def)
  note inst = C1_at_most_one_slot_between_steps
    [OF q r HandleSyncMessage_post_ping, of sample_env "[Turn_next_task]"]
  have ok: "slots_ok 1 recording_world"
    by (simp add: slots_ok_def at_most_one_slot_def recording_world_def)
  from inst ok have "\<forall>w' \<in> set (wait_points sample_env 1 [Turn_next_task] (NotifyAll pending_world)).
      slots_ok 1 w'"
    by blast
  then have all: "list_all (slots_ok 1)
      (wait_points sample_env 1 [Turn_next_task] (NotifyAll pending_world))"
    by (simp add: list_all_iff)
  from inst b have bad: "MaybeSendSyncMessage sample_env 1 clash_world = Inl Assert_NoSyncMessageReply"
    by blast
  have pts: "map (slots 1) (wait_points sample_env 1 [Turn_next_task] (NotifyAll pending_world)) =
     [Some (Some ping, None), Some (None, Some pong)]"
    by (simp add: exec_defs ProcessMainThreadRunnables_loop.simps pending_world_def
        sample_env_def slots_def)
  have ret: "HandleSyncMessage sample_env 1 ping False [Turn_next_task] recording_world =
      Returned pong (recording_world\<lparr>notified := 2, ran := [StaticMaybeSendSyncMessage_run 1]\<rparr>)"
    by (simp add: exec_defs ProcessMainThreadRunnables_loop.simps recording_world_def
        sample_env_def)
  with inst have "slots 1 (recording_world\<lparr>notified := 2, ran := [StaticMaybeSendSyncMessage_run 1]\<rparr>) =
      Some (None, None)"
    by blast
  with ret have fin: "\<exists>w2. HandleSyncMessage sample_env 1 ping False [Turn_next_task] recording_world =
            Returned pong w2 \<and> slots 1 w2 = Some (None, None)"
    by simp
  from pts all fin bad show ?thesis by simp
qed

text \<open>
  C5: when the synchronous transmit succeeds, \<open>MaybeSendSyncMessage\<close> leaves the
  peer's reply in the reply slot, empties the message slot and notifies all
  waiters. This holds for any protocol with a message pending and an empty reply
  slot. A thread waiting in \<open>HandleSyncMessage\<close> that finds a reply in the slot
  leaves the wait, returns exactly that reply and empties the reply slot. Put
  together for the parent protocol with nothing queued for the main thread, whose
  next turn is \<open>MaybeHandleForwardedMessages\<close>: the call returns the peer's reply
  and leaves both slots empty, whatever the main thread would do afterwards.
\<close>

theorem C5_successful_transmit_returns_reply:
  "(\<forall>w0 p0 m.
      heap w0 this = Some p0 \<and> mSyncMessage p0 = Some m \<and> mSyncMessageReply p0 = None \<and>
      mOpposite p0 = Some opp \<and>
      (if mSyncMessageIsCall p0 then Channel_Call E opp m else Channel_SendSync E opp m) = (True, r) \<longrightarrow>
      MaybeSendSyncMessage E this w0 =
        Inr (w0\<lparr>heap := (heap w0)(this \<mapsto> p0\<lparr>mSyncMessageReply := Some r, mSyncMessage := None\<rparr>),
                notified := Suc (notified w0)\<rparr>)) \<and>
   (heap w this = Some p \<and> mSide p = ParentSide \<and> mOppositeMessageLoop p \<noteq> None \<and>
    mSyncMessageReply p = None \<and> mOpposite p = Some opp \<and>
    gParentProtocol w = Some this \<and> gMainThreadRunnables w = [] \<and>
    (if aCall then Channel_Call E opp aMessage else Channel_SendSync E opp aMessage) = (True, r) \<longrightarrow>
    (\<exists>w1 w2 w3.
       HandleSyncMessage_post this aMessage aCall w = Inr w1 \<and>
       slots this w1 = Some (Some aMessage, None) \<and>
       MaybeSendSyncMessage E this (NotifyAll w1) = Inr w2 \<and>
       slots this w2 = Some (None, Some r) \<and>
       notified w2 = Suc (notified (NotifyAll w1)) \<and>
       HandleSyncMessage E this aMessage aCall (Turn_MaybeHandleForwardedMessages # sched) w =
         Returned r w3 \<and>
       slots this w3 = Some (None, None))) \<and>
   (\<forall>w0 p0. heap w0 this = Some p0 \<and> mSyncMessageReply p0 = Some r \<longrightarrow>
      wait_for_reply E this sched w0 = Returned () w0 \<and>
      HandleSyncMessage_take this w0 =
        Returned r (store this (p0\<lparr>mSyncMessageReply := None\<rparr>) w0))"
proof (intro conjI allI impI)
  fix w0 :: world and p0
  assume a: "heap w0 this = Some p0 \<and> mSyncMessageReply p0 = Some r"
  then show "wait_for_reply E this sched w0 = Returned () w0"
    by (simp add: wait_for_reply_ready)
  from a show "HandleSyncMessage_take this w0 =
      Returned r (store this (p0\<lparr>mSyncMessageReply := None\<rparr>) w0)"
    by (simp add: HandleSyncMessage_take_def)
next
  fix w0 :: world and p0 m
  assume "heap w0 this = Some p0 \<and> mSyncMessage p0 = Some m \<and> mSyncMessageReply p0 = None \<and>
      mOpposite p0 = Some opp \<and>
      (if mSyncMessageIsCall p0 then Channel_Call E opp m else Channel_SendSync E opp m) = (True, r)"
  then show "MaybeSendSyncMessage E this w0 =
        Inr (w0\<lparr>heap := (heap w0)(this \<mapsto> p0\<lparr>mSyncMessageReply := Some r, mSyncMessage := None\<rparr>),
                notified := Suc (notified w0)\<rparr>)"
    using MaybeSendSyncMessage_success [of w0 this p0 m opp E r] by blast
next
  assume "heap w this = Some p \<and> mSide p = ParentSide \<and> mOppositeMessageLoop p \<noteq> None \<and>
    mSyncMessageReply p = None \<and> mOpposite p = Some opp \<and>
    gParentProtocol w = Some this \<and> gMainThreadRunnables w = [] \<and>
    (if aCall then Channel_Call E opp aMessage else Channel_SendSync E opp aMessage) = (True, r)"
  then show "\<exists>w1 w2 w3.
       HandleSyncMessage_post this aMessage aCall w = Inr w1 \<and>
       slots this w1 = Some (Some aMessage, None) \<and>
       MaybeSendSyncMessage E this (NotifyAll w1) = Inr w2 \<and>
       slots this w2 = Some (None, Some r) \<and>
       notified w2 = Suc (notified (NotifyAll w1)) \<and>
       HandleSyncMessage E this aMessage aCall (Turn_MaybeHandleForwardedMessages # sched) w =
         Returned r w3 \<and>
       slots this w3 = Some (None, None)"
    using exchange_success [of w this p opp aCall E aMessage r sched] by blast
qed

theorem C5_successful_transmit_witness:
  "MaybeSendSyncMessage sample_env 1 pending_world =
     Inr (pending_world\<lparr>heap := (heap pending_world)
            (1 \<mapsto> \<lparr>mSide = ParentSide, mOpposite = Some 0,
                    mOppositeMessageLoop = Some MainThreadLoop,
                    mSyncMessage = None, mSyncMessageReply = Some pong,
                    mSyncMessageIsCall = False, channel_to = Some RecordingProcess\<rparr>),
          notified := 1\<rparr>) \<and>
   (\<exists>w3. HandleSyncMessage sample_env 1 ping True
            [Turn_MaybeHandleForwardedMessages, Turn_next_task] recording_world = Returned pong w3 \<and>
          slots 1 w3 = Some (None, None))"
proof -
  let ?q = "\<lparr>mSide = ParentSide, mOpposite = Some 0, mOppositeMessageLoop = Some MainThreadLoop,
            mSyncMessage = None, mSyncMessageReply = None, mSyncMessageIsCall = False,
            channel_to = Some RecordingProcess\<rparr>"
  let ?m = "\<lparr>mSide = ParentSide, mOpposite = Some 0, mOppositeMessageLoop = Some MainThreadLoop,
            mSyncMessage = Some ping, mSyncMessageReply = None, mSyncMessageIsCall = False,
            channel_to = Some RecordingProcess\<rparr>"
  note inst = C5_successful_transmit_returns_reply
    [where E = sample_env and this = 1 and opp = 0 and r = pong and w = recording_world
       and p = "?q" and aCall = True and aMessage = ping and sched = "[Turn_next_task]"]
  have pend: "heap pending_world 1 = Some ?m \<and> mSyncMessage ?m = Some ping \<and>
      mSyncMessageReply ?m = None \<and> mOpposite ?m = Some 0 \<and>
      (if mSyncMessageIsCall ?m then Channel_Call sample_env 0 ping
       else Channel_SendSync sample_env 0 ping) = (True, pong)"
    by (simp add: pending_world_def sample_env_def)
  have rec: "heap recording_world 1 = Some ?q \<and> mSide ?q = ParentSide \<and>
      mOppositeMessageLoop ?q \<noteq> None \<and> mSyncMessageReply ?q = None \<and> mOpposite ?q = Some 0 \<and>
      gParentProtocol recording_world = Some 1 \<and> gMainThreadRunnables recording_world = [] \<and>
      (if True then Channel_Call sample_env 0 ping else Channel_SendSync sample_env 0 ping) =
        (True, pong)"
    by (simp add: recording_world_def sample_env_def)
  from inst pend have a: "MaybeSendSyncMessage sample_env 1 pending_world =
      Inr (pending_world\<lparr>heap := (heap pending_world)
             (1 \<mapsto> ?m\<lparr>mSyncMessageReply := Some pong, mSyncMessage := None\<rparr>),
           notified := Suc (notified pending_world)\<rparr>)"
    by blast
  from inst rec have b: "\<exists>w3. HandleSyncMessage sample_env 1 ping True
            [Turn_MaybeHandleForwardedMessages, Turn_next_task] recording_world = Returned pong w3 \<and>
          slots 1 w3 = Some (None, None)"
    by blast
  have n: "notified pending_world = 0"
    by (simp add: pending_world_def)
  from a b n show ?thesis by simp
qed

text \<open>
  C8, as stated: when the synchronous transmit fails, the process enters the
  shutdown path and the thread blocked in the synchronous send is woken and
  returns. The only protocol a thread can block on is a \<open>ParentSide\<close> one, and there
  a failed transmit fails the release assertion in \<open>MaybeSendSyncMessage\<close>: with
  every channel dead, the exchange on the parent protocol ends the process, no
  shutdown task is posted and the call does not return.
\<close>

theorem C8_failed_transmit_on_parent_counterexample:
  "map_option mSide (heap recording_world 1) = Some ParentSide \<and>
   Channel_SendSync failing_env 0 ping = (False, Message_new) \<and>
   HandleSyncMessage failing_env 1 ping False [Turn_MaybeHandleForwardedMessages] recording_world =
     Stopped Assert_SyncSend_ChildSide \<and>
   MaybeSendSyncMessage failing_env 1 pending_world = Inl Assert_SyncSend_ChildSide"
  by (simp add: exec_defs recording_world_def pending_world_def sample_env_def failing_env_def)

text \<open>
  C8, amended: when the synchronous transmit fails in \<open>MaybeSendSyncMessage\<close> of a
  \<open>ChildSide\<close> protocol, a shutdown task is posted to the main thread, the reply
  slot holds the reply buffer, the message slot is emptied and all waiters are
  notified. On a \<open>ParentSide\<close> protocol the failure is the release assertion: the
  call of \<open>HandleSyncMessage\<close> blocked on that protocol does not return.
\<close>

theorem C8_failed_transmit_shuts_down_on_child_side:
  "(\<forall>w0 p0 m.
      heap w0 this = Some p0 \<and> mSyncMessage p0 = Some m \<and> mSyncMessageReply p0 = None \<and>
      mOpposite p0 = Some opp \<and>
      (if mSyncMessageIsCall p0 then Channel_Call E opp m else Channel_SendSync E opp m) = (False, r) \<longrightarrow>
      MaybeSendSyncMessage E this w0 =
        (if mSide p0 = ChildSide then
           Inr (w0\<lparr>main_loop_tasks := main_loop_tasks w0 @ [Shutdown_task],
                   heap := (heap w0)(this \<mapsto> p0\<lparr>mSyncMessageReply := Some r, mSyncMessage := None\<rparr>),
                   notified := Suc (notified w0)\<rparr>)
         else Inl Assert_SyncSend_ChildSide)) \<and>
   (heap w this = Some p \<and> mSide p = ParentSide \<and> mOppositeMessageLoop p \<noteq> None \<and>
    mSyncMessageReply p = None \<and> mOpposite p = Some opp \<and> gParentProtocol w = Some this \<and>
    (if aCall then Channel_Call E opp aMessage else Channel_SendSync E opp aMessage) = (False, r) \<longrightarrow>
    HandleSyncMessage E this aMessage aCall (Turn_MaybeHandleForwardedMessages # sched) w =
      Stopped Assert_SyncSend_ChildSide)"
proof (intro conjI allI impI)
  fix w0 :: world and p0 m
  assume "heap w0 this = Some p0 \<and> mSyncMessage p0 = Some m \<and> mSyncMessageReply p0 = None \<and>
      mOpposite p0 = Some opp \<and>
      (if mSyncMessageIsCall p0 then Channel_Call E opp m else Channel_SendSync E opp m) = (False, r)"
  then show "MaybeSendSyncMessage E this w0 =
        (if mSide p0 = ChildSide then
           Inr (w0\<lparr>main_loop_tasks := main_loop_tasks w0 @ [Shutdown_task],
                   heap := (heap w0)(this \<mapsto> p0\<lparr>mSyncMessageReply := Some r, mSyncMessage := None\<rparr>),
                   notified := Suc (notified w0)\<rparr>)
         else Inl Assert_SyncSend_ChildSide)"
    using MaybeSendSyncMessage_failure [of w0 this p0 m opp E r] by blast
next
  assume "heap w this = Some p \<and> mSide p = ParentSide \<and> mOppositeMessageLoop p \<noteq> None \<and>
    mSyncMessageReply p = None \<and> mOpposite p = Some opp \<and> gParentProtocol w = Some this \<and>
    (if aCall then Channel_Call E opp aMessage else Channel_SendSync E opp aMessage) = (False, r)"
  then show "HandleSyncMessage E this aMessage aCall (Turn_MaybeHandleForwardedMessages # sched) w =
      Stopped Assert_SyncSend_ChildSide"
    using exchange_failure [of w this p opp aCall E aMessage r sched] by blast
qed

theorem C8_failed_transmit_witness:
  "MaybeSendSyncMessage failing_env 0 child_pending_world =
     Inr (child_pending_world\<lparr>main_loop_tasks := [Shutdown_task],
            heap := (heap child_pending_world)
              (0 \<mapsto> \<lparr>mSide = ChildSide, mOpposite = Some 1,
                      mOppositeMessageLoop = Some ForwardingLoop,
                      mSyncMessage = None, mSyncMessageReply = Some Message_new,
                      mSyncMessageIsCall = False, channel_to = None\<rparr>),
            notified := 1\<rparr>) \<and>
   HandleSyncMessage failing_env 1 ping True [Turn_MaybeHandleForwardedMessages] recording_world =
     Stopped Assert_SyncSend_ChildSide"
proof -
  let ?q = "\<lparr>mSide = ParentSide, mOpposite = Some 0, mOppositeMessageLoop = Some MainThreadLoop,
            mSyncMessage = None, mSyncMessageReply = None, mSyncMessageIsCall = False,
            channel_to = Some RecordingProcess\<rparr>"
  let ?c = "\<lparr>mSide = ChildSide, mOpposite = Some 1, mOppositeMessageLoop = Some ForwardingLoop,
            mSyncMessage = Some ping, mSyncMessageReply = None, mSyncMessageIsCall = False,
            channel_to = None\<rparr>"
  note child = C8_failed_transmit_shuts_down_on_child_side
    [where E = failing_env and this = 0 and opp = 1 and r = Message_new]
  note parent = C8_failed_transmit_shuts_down_on_child_side
    [where E = failing_env and this = 1 and opp = 0 and r = Message_new and w = recording_world
       and p = "?q" and aCall = True and aMessage = ping and sched = "[]"]
  have pend: "heap child_pending_world 0 = Some ?c \<and> mSyncMessage ?c = Some ping \<and>
      mSyncMessageReply ?c = None \<and> mOpposite ?c = Some 1 \<and>
      (if mSyncMessageIsCall ?c then Channel_Call failing_env 1 ping
       else Channel_SendSync failing_env 1 ping) = (False, Message_new)"
    by (simp add: child_pending_world_def store_def failing_env_def sample_env_def)
  have rec: "heap recording_world 1 = Some ?q \<and> mSide ?q = ParentSide \<and>
      mOppositeMessageLoop ?q \<noteq> None \<and> mSyncMessageReply ?q = None \<and> mOpposite ?q = Some 0 \<and>
      gParentProtocol recording_world = Some 1 \<and>
      (if True then Channel_Call failing_env 0 ping else Channel_SendSync failing_env 0 ping) =
        (False, Message_new)"
    by (simp add: recording_world_def failing_env_def sample_env_def)
  from child pend have a: "MaybeSendSyncMessage failing_env 0 child_pending_world =
      (if mSide ?c = ChildSide then
         Inr (child_pending_world
               \<lparr>main_loop_tasks := main_loop_tasks child_pending_world @ [Shutdown_task],
                heap := (heap child_pending_world)
                  (0 \<mapsto> ?c\<lparr>mSyncMessageReply := Some Message_new, mSyncMessage := None\<rparr>),
                notified := Suc (notified child_pending_world)\<rparr>)
       else Inl Assert_SyncSend_ChildSide)"
    by blast
  from parent rec have b: "HandleSyncMessage failing_env 1 ping True
      [Turn_MaybeHandleForwardedMessages] recording_world = Stopped Assert_SyncSend_ChildSide"
    by blast
  have n: "notified child_pending_world = 0 \<and> main_loop_tasks child_pending_world = []"
    by (simp add: child_pending_world_def store_def recording_world_def)
  from a b n show ?thesis by simp
qed

section \<open>Facts about the runnable queue\<close>








section \<open>Claims about the runnable queue\<close>




end
